theory Spec2Isabelle
  imports Complex_Main "HOL-Library.Sublist"
begin

section \<open>Sentinel DDoS: request admission, detection and mitigation\<close>

text \<open>
  A shallow embedding of the Python sources of the proxy. Conventions:
  \<^item> Python \<open>str\<close> is \<open>string\<close>, a character being a code point below 256; \<open>lower()\<close>,
    \<open>upper()\<close>, \<open>strip()\<close> and \<open>int()\<close> are the functions of Python on these characters.
    Text with other code points is outside the model.
  \<^item> Python \<open>float\<close> is \<open>real\<close>: sums, quotients and comparisons are exact. The
    conversion of an integer to a float fails, as in Python, beyond the range of a
    double.
  \<^item> Python \<open>int\<close> is \<open>int\<close>.
  \<^item> \<open>time.time()\<close>, \<open>uuid.uuid4()\<close> and \<open>secrets.token_hex\<close> are inputs of the
    function that calls them; SHA-256, HMAC-SHA-256 and MD5 are inputs as well.
  \<^item> an exception is a value \<open>Inl e\<close> of a sum type (or \<open>None\<close>).
  \<^item> a coroutine is the function it computes: between two \<open>await\<close>s of the sources no
    other request runs.
\<close>

subsection \<open>Python built-ins used by the sources\<close>

datatype py_error = ValueError | IndexError | ResponseError | OverflowError

text \<open>
  What the sources take from the interpreter and its libraries as given: the
  hexadecimal digests of \<open>hashlib\<close> and \<open>hmac\<close>, as functions of the bytes hashed, and
  \<open>sys.get_int_max_str_digits()\<close>, the interpreter's limit on the digits of an integer
  literal (0 when there is none).
\<close>

record library =
  sha256_hex :: "string \<Rightarrow> string"
  hmac_sha256_hex :: "string \<Rightarrow> string \<Rightarrow> string"
  md5_hex :: "string \<Rightarrow> string"
  int_max_str_digits :: nat

text \<open>The capital letters below 256: \<open>A\<close> to \<open>Z\<close>, and \<open>U+00C0\<close> to \<open>U+00DE\<close> without the
  multiplication sign. Each has its small letter 32 above.\<close>

definition is_capital :: "char \<Rightarrow> bool" where
  "is_capital c =
     (let n = (of_char c :: nat) in (65 \<le> n \<and> n \<le> 90) \<or> (192 \<le> n \<and> n \<le> 222 \<and> n \<noteq> 215))"

definition lower_char :: "char \<Rightarrow> char" where
  "lower_char c = (if is_capital c then char_of (of_char c + (32::nat)) else c)"

text \<open>\<open>str.lower()\<close>\<close>

definition lower :: "string \<Rightarrow> string" where
  "lower s = map lower_char s"

text \<open>\<open>str.upper()\<close>, as code points: the capital of the micro sign and of \<open>U+00FF\<close> lie
  above 255, and the capital of the sharp s is \<open>SS\<close>.\<close>

definition upper_char :: "char \<Rightarrow> nat list" where
  "upper_char c =
     (let n = (of_char c :: nat)
      in if (97 \<le> n \<and> n \<le> 122) \<or> (224 \<le> n \<and> n \<le> 254 \<and> n \<noteq> 247) then [n - 32]
         else if n = 181 then [924]
         else if n = 223 then [83, 83]
         else if n = 255 then [376]
         else [n])"

definition upper :: "string \<Rightarrow> nat list" where
  "upper s = concat (map upper_char s)"

text \<open>The characters for which \<open>str.isspace()\<close> holds: TAB, LF, VT, FF, CR, FS, GS, RS,
  US, the blank, NEL (\<open>U+0085\<close>) and the no-break space (\<open>U+00A0\<close>).\<close>

definition is_space :: "char \<Rightarrow> bool" where
  "is_space c =
     (let n = (of_char c :: nat)
      in (9 \<le> n \<and> n \<le> 13) \<or> (28 \<le> n \<and> n \<le> 32) \<or> n = 133 \<or> n = 160)"

text \<open>\<open>str.strip()\<close>\<close>

definition strip :: "string \<Rightarrow> string" where
  "strip s = rev (dropWhile is_space (rev (dropWhile is_space s)))"

text \<open>\<open>str.split(sep)\<close> for a one-character separator: never the empty list, and
  adjacent separators give empty parts.\<close>

fun split_on :: "char \<Rightarrow> string \<Rightarrow> string list" where
  "split_on c [] = [[]]"
| "split_on c (x # xs) =
     (if x = c then [] # split_on c xs
      else (case split_on c xs of p # ps \<Rightarrow> (x # p) # ps | [] \<Rightarrow> [[x]]))"

text \<open>\<open>sep.join(parts)\<close>\<close>

fun join :: "string \<Rightarrow> string list \<Rightarrow> string" where
  "join sep [] = []"
| "join sep [p] = p"
| "join sep (p # q # ps) = p @ sep @ join sep (q # ps)"

text \<open>\<open>s.startswith(p)\<close>, \<open>s.endswith(p)\<close> and \<open>p in s\<close> are \<^const>\<open>prefix\<close>,
  \<^const>\<open>suffix\<close> and \<^const>\<open>sublist\<close>.\<close>

definition is_ascii :: "char \<Rightarrow> bool" where
  "is_ascii c = ((of_char c :: nat) < 128)"

definition is_digit :: "char \<Rightarrow> bool" where
  "is_digit c = (let n = (of_char c :: nat) in 48 \<le> n \<and> n \<le> 57)"

definition digit_val :: "char \<Rightarrow> nat" where
  "digit_val c = of_char c - 48"

text \<open>The white space that \<open>int()\<close> skips around a literal: TAB, LF, VT, FF, CR and the
  blank.\<close>

definition int_space :: "char \<Rightarrow> bool" where
  "int_space c = (let n = (of_char c :: nat) in (9 \<le> n \<and> n \<le> 13) \<or> n = 32)"

text \<open>Before it reads a string that is not ASCII, \<open>int()\<close> replaces every white-space
  character beyond ASCII (NEL and the no-break space) by a blank, and a character
  beyond ASCII that is neither white space nor a decimal digit (below 256 there is no
  such digit) by a question mark, which no literal contains.\<close>

definition to_ascii :: "char \<Rightarrow> char" where
  "to_ascii c =
     (if is_ascii c then c
      else if (of_char c :: nat) = 133 \<or> (of_char c :: nat) = 160 then CHR '' ''
      else CHR ''?'')"

text \<open>The digits of an integer literal after the first one: single underscores are
  allowed between digits only.\<close>

fun py_digits :: "nat \<Rightarrow> string \<Rightarrow> nat option" where
  "py_digits acc [] = Some acc"
| "py_digits acc [c] = (if is_digit c then Some (acc * 10 + digit_val c) else None)"
| "py_digits acc (c # d # ds) =
     (if c = CHR ''_'' then
        (if is_digit d then py_digits (acc * 10 + digit_val d) ds else None)
      else if is_digit c then py_digits (acc * 10 + digit_val c) (d # ds)
      else None)"

definition py_nat :: "string \<Rightarrow> nat option" where
  "py_nat s = (case s of [] \<Rightarrow> None
               | c # cs \<Rightarrow> if is_digit c then py_digits (digit_val c) cs else None)"

text \<open>The interpreter refuses a literal of more than 640 digits that has more digits
  than its limit, when it has one.\<close>

definition too_long :: "nat \<Rightarrow> string \<Rightarrow> bool" where
  "too_long limit s =
     (let digits = length (filter is_digit s)
      in digits > 640 \<and> limit > 0 \<and> digits > limit)"

text \<open>\<open>int(s)\<close> for a string of ASCII characters, base 10: the white space around the
  literal is skipped, one sign is allowed; \<open>None\<close> is the \<open>ValueError\<close>.\<close>

definition ascii_int :: "nat \<Rightarrow> string \<Rightarrow> int option" where
  "ascii_int limit s =
     (case rev (dropWhile int_space (rev (dropWhile int_space s))) of
        [] \<Rightarrow> None
      | c # cs \<Rightarrow>
          if too_long limit (c # cs) then None
          else if c = CHR ''-'' then map_option (\<lambda>n. - int n) (py_nat cs)
          else if c = CHR ''+'' then map_option int (py_nat cs)
          else map_option int (py_nat (c # cs)))"

text \<open>\<open>int(s)\<close> for a string\<close>

definition py_int :: "library \<Rightarrow> string \<Rightarrow> int option" where
  "py_int lib s = ascii_int (int_max_str_digits lib) (map to_ascii s)"

text \<open>The conversion of an integer to a float, as in \<open>x - n\<close> for a float \<open>x\<close> and in
  \<open>numpy.array\<close>: an integer that rounds to a magnitude of \<open>2 ** 1024\<close> raises
  \<open>OverflowError\<close> (\<open>None\<close>).\<close>

definition float_of_int :: "int \<Rightarrow> real option" where
  "float_of_int n = (if \<bar>n\<bar> \<ge> 2 ^ 1024 - 2 ^ 970 then None else Some (real_of_int n))"

subsection \<open>detection/scorer.py\<close>

text \<open>\<open>AnomalyScorer._z_to_score\<close>\<close>

definition z_to_score :: "real \<Rightarrow> real \<Rightarrow> real \<Rightarrow> real" where
  "z_to_score val mean std =
     (let z = (if std \<noteq> 0 then \<bar>val - mean\<bar> / std else 0)
      in if z < 1.5 then 0
         else if z < 3 then (z - 1.5) / 1.5
         else 1)"

subsection \<open>detection/classifier.py\<close>

datatype AttackType =
  HTTP_FLOOD | SLOWLORIS | API_ABUSE | CREDENTIAL_STUFFING | SCRAPING | UNKNOWN

text \<open>The feature dictionary: a key that is absent is \<open>None\<close>, and \<open>features.get\<close> supplies
  the default.\<close>

record features =
  feat_method :: "string option"
  feat_path :: "string option"
  feat_user_agent :: "string option"
  feat_content_length :: "int option"
  feat_header_count :: "int option"
  feat_accept_language :: "string option"

definition dict_get :: "'a option \<Rightarrow> 'a \<Rightarrow> 'a" where
  "dict_get v d = (case v of Some x \<Rightarrow> x | None \<Rightarrow> d)"

definition login_paths :: "string list" where
  "login_paths = [''/login'', ''/auth'', ''/api/login'', ''/api/auth'', ''/signin'', ''/api/signin'']"

text \<open>\<open>rate_count / rate_limit if rate_limit > 0 else 0.0\<close>\<close>

definition rate_ratio :: "int \<Rightarrow> int \<Rightarrow> real" where
  "rate_ratio rate_count rate_limit =
     (if rate_limit > 0 then real_of_int rate_count / real_of_int rate_limit else 0)"

text \<open>\<open>AttackClassifier.classify\<close>\<close>

definition classify :: "features \<Rightarrow> int \<Rightarrow> int \<Rightarrow> real \<Rightarrow> AttackType option" where
  "classify f rate_count rate_limit behavior_score =
     (let method = dict_get (feat_method f) ''GET'';
          path = dict_get (feat_path f) ''/'';
          ua = dict_get (feat_user_agent f) [];
          content_length = dict_get (feat_content_length f) 0;
          r = rate_ratio rate_count rate_limit
      in if r > 0.6 \<and> (ua = [] \<or> behavior_score > 0.5) then Some HTTP_FLOOD
         else if r > 0.85 then Some HTTP_FLOOD
         else if content_length = 0 \<and> method = ''POST'' \<and> behavior_score > 0.3
           then Some SLOWLORIS
         else if lower path \<in> set login_paths \<and> method = ''POST'' \<and> r > 0.3
           then Some CREDENTIAL_STUFFING
         else if sublist ''/api/'' path \<and> method \<in> set [''POST'', ''PUT'', ''DELETE'']
                 \<and> (r > 0.5 \<or> behavior_score > 0.6)
           then Some API_ABUSE
         else if method = ''GET'' \<and> behavior_score > 0.6 \<and> r > 0.4 then Some SCRAPING
         else None)"

text \<open>Equality of strings up to the case of their letters: the same length, and at each
  place the same character, or a capital letter and its small letter.\<close>

definition caseless_char :: "char \<Rightarrow> char \<Rightarrow> bool" where
  "caseless_char a b =
     (a = b \<or> (is_capital a \<and> (of_char b :: nat) = of_char a + 32)
            \<or> (is_capital b \<and> (of_char a :: nat) = of_char b + 32))"

definition caseless_eq :: "string \<Rightarrow> string \<Rightarrow> bool" where
  "caseless_eq s t = list_all2 caseless_char s t"

text \<open>The classifier as the specification words it: an ordered table of rules, each a
  condition and a label, and the label of the first rule whose condition holds. The
  fourth rule asks for a login path up to case.\<close>

fun first_match :: "(bool \<times> 'a) list \<Rightarrow> 'a option" where
  "first_match [] = None"
| "first_match ((c, l) # rs) = (if c then Some l else first_match rs)"

definition classifier_rules :: "string \<Rightarrow> string \<Rightarrow> string \<Rightarrow> int \<Rightarrow> real \<Rightarrow> real
    \<Rightarrow> (bool \<times> AttackType) list" where
  "classifier_rules method path ua content_length r behavior =
     [(r > 0.6 \<and> (ua = [] \<or> behavior > 0.5), HTTP_FLOOD),
      (r > 0.85, HTTP_FLOOD),
      (content_length = 0 \<and> method = ''POST'' \<and> behavior > 0.3, SLOWLORIS),
      ((\<exists>p \<in> set login_paths. caseless_eq path p) \<and> method = ''POST'' \<and> r > 0.3,
       CREDENTIAL_STUFFING),
      (sublist ''/api/'' path \<and> (method = ''POST'' \<or> method = ''PUT'' \<or> method = ''DELETE'')
         \<and> (r > 0.5 \<or> behavior > 0.6), API_ABUSE),
      (method = ''GET'' \<and> behavior > 0.6 \<and> r > 0.4, SCRAPING)]"

subsection \<open>detection/behavior.py\<close>

definition SESSION_TTL :: real where
  "SESSION_TTL = 600"

definition MAX_TRACKED :: nat where
  "MAX_TRACKED = 50000"

text \<open>\<open>IPSession\<close>: the two deques are lists, oldest entry first.\<close>

record IPSession =
  first_seen :: real
  last_seen :: real
  request_count :: int
  inter_arrival_times :: "real list"
  paths_visited :: "string list"
  methods_used :: "string set"
  has_referer :: bool
  has_cookies :: bool
  user_agents :: "string set"
  accept_languages :: "string set"
  header_order_hashes :: "string set"

text \<open>\<open>IPSession()\<close> with the defaults of the dataclass.\<close>

definition new_session :: IPSession where
  "new_session = \<lparr>first_seen = 0, last_seen = 0, request_count = 0,
     inter_arrival_times = [], paths_visited = [], methods_used = {},
     has_referer = False, has_cookies = False,
     user_agents = {}, accept_languages = {}, header_order_hashes = {}\<rparr>"

text \<open>\<open>deque(maxlen=n).append(x)\<close>: a full deque drops its oldest entry.\<close>

definition deque_append :: "nat \<Rightarrow> 'a list \<Rightarrow> 'a \<Rightarrow> 'a list" where
  "deque_append maxlen xs x = (if length xs < maxlen then xs @ [x] else tl xs @ [x])"

text \<open>The truth value of an optional string: \<open>None\<close> and the empty string are false.\<close>

definition truthy :: "string option \<Rightarrow> bool" where
  "truthy v = (case v of None \<Rightarrow> False | Some s \<Rightarrow> s \<noteq> [])"

text \<open>\<open>IPSession.record\<close>\<close>

definition session_record :: "IPSession \<Rightarrow> real \<Rightarrow> string \<Rightarrow> string \<Rightarrow> string \<Rightarrow> string
    \<Rightarrow> string option \<Rightarrow> string option \<Rightarrow> string \<Rightarrow> IPSession" where
  "session_record s now path method user_agent accept_language referer cookie header_order_hash =
     (let s1 = (if first_seen s = 0 then s\<lparr>first_seen := now\<rparr> else s);
          s2 = (if last_seen s1 > 0
                then s1\<lparr>inter_arrival_times :=
                          deque_append 200 (inter_arrival_times s1) (now - last_seen s1)\<rparr>
                else s1);
          s3 = s2\<lparr>last_seen := now, request_count := request_count s2 + 1\<rparr>;
          s4 = s3\<lparr>paths_visited := deque_append 100 (paths_visited s3) path,
                   methods_used := insert method (methods_used s3)\<rparr>;
          s5 = (if user_agent \<noteq> [] then s4\<lparr>user_agents := insert user_agent (user_agents s4)\<rparr>
                else s4);
          s6 = (if accept_language \<noteq> []
                then s5\<lparr>accept_languages := insert accept_language (accept_languages s5)\<rparr>
                else s5);
          s7 = s6\<lparr>header_order_hashes := insert header_order_hash (header_order_hashes s6)\<rparr>;
          s8 = (if truthy referer then s7\<lparr>has_referer := True\<rparr> else s7)
      in if truthy cookie then s8\<lparr>has_cookies := True\<rparr> else s8)"

text \<open>\<open>BehaviorAnalyzer._timing_regularity\<close>\<close>

definition timing_regularity :: "IPSession \<Rightarrow> real" where
  "timing_regularity s =
     (let intervals = inter_arrival_times s
      in if length intervals < 5 then 0
         else
           let mean_iat = sum_list intervals / real (length intervals)
           in if mean_iat = 0 then 1
              else
                let variance = sum_list (map (\<lambda>x. (x - mean_iat)\<^sup>2) intervals)
                                 / real (length intervals);
                    std_iat = sqrt variance;
                    cv = std_iat / mean_iat
                in if cv < 0.05 then 1
                   else if cv < 0.15 then 0.7
                   else if cv < 0.3 then 0.3
                   else 0)"

text \<open>\<open>BehaviorAnalyzer._path_diversity\<close>; \<open>len(set(paths))\<close> is the number of distinct
  paths.\<close>

definition path_diversity :: "IPSession \<Rightarrow> real" where
  "path_diversity s =
     (let paths = paths_visited s
      in if paths = [] then 0
         else real (length (remdups paths)) / real (length paths))"

text \<open>\<open>BehaviorAnalyzer._header_consistency\<close>\<close>

definition header_consistency :: "IPSession \<Rightarrow> real" where
  "header_consistency s =
     (let score0 = (0::real);
          score1 = (if card (user_agents s) > 1 then score0 + 0.5 else score0);
          score2 = (if card (accept_languages s) > 2 then score1 + 0.3 else score1);
          score3 = (if card (header_order_hashes s) > 2 then score2 + 0.2 else score2)
      in min 1 score3)"

text \<open>\<open>BehaviorAnalyzer._rate_score\<close>\<close>

definition rate_score :: "IPSession \<Rightarrow> real" where
  "rate_score s =
     (let duration = last_seen s - first_seen s
      in if duration < 1 then 0
         else
           let rps = real_of_int (request_count s) / duration
           in if rps > 20 then 1
              else if rps > 10 then 0.7
              else if rps > 5 then 0.3
              else 0)"

text \<open>\<open>BehaviorAnalyzer._browser_indicators\<close>\<close>

definition browser_indicators :: "IPSession \<Rightarrow> real" where
  "browser_indicators s =
     (let score0 = (0::real);
          score1 = (if \<not> has_referer s \<and> request_count s > 5 then score0 + 0.4 else score0);
          score2 = (if \<not> has_cookies s \<and> request_count s > 3 then score1 + 0.3 else score1);
          score3 = (if accept_languages s = {} then score2 + 0.3 else score2)
      in min 1 score3)"

text \<open>The weighted sum \<open>sum(v * w for v, w in signals)\<close> of \<open>_compute_score\<close>.\<close>

definition composite :: "IPSession \<Rightarrow> real" where
  "composite s =
     timing_regularity s * 0.30 + (1 - path_diversity s) * 0.15 + header_consistency s * 0.15
       + rate_score s * 0.20 + browser_indicators s * 0.20"

text \<open>\<open>BehaviorAnalyzer._compute_score\<close>\<close>

definition compute_score :: "IPSession \<Rightarrow> real" where
  "compute_score s = (if request_count s < 3 then 0 else min 1 (max 0 (composite s)))"

text \<open>\<open>BehaviorAnalyzer\<close>: the dictionary of sessions in insertion order, and the time of
  the last cleanup.\<close>

record BehaviorAnalyzer =
  sessions :: "(string \<times> IPSession) list"
  last_cleanup :: real

text \<open>\<open>BehaviorAnalyzer()\<close>\<close>

definition new_analyzer :: BehaviorAnalyzer where
  "new_analyzer = \<lparr>sessions = [], last_cleanup = 0\<rparr>"

text \<open>\<open>d[k] = v\<close> on an insertion-ordered dictionary: a present key keeps its place, a new
  key goes last. \<open>del d[k]\<close> removes the key.\<close>

definition dict_set :: "('k \<times> 'v) list \<Rightarrow> 'k \<Rightarrow> 'v \<Rightarrow> ('k \<times> 'v) list" where
  "dict_set d k v =
     (if map_of d k = None then d @ [(k, v)]
      else map (\<lambda>(k', v'). if k' = k then (k', v) else (k', v')) d)"

definition dict_del :: "('k \<times> 'v) list \<Rightarrow> 'k \<Rightarrow> ('k \<times> 'v) list" where
  "dict_del d k = filter (\<lambda>(k', v'). k' \<noteq> k) d"

text \<open>\<open>min(d, key=f)\<close>: the first key, in iteration order, of least \<open>f\<close>; \<open>None\<close> is the
  \<open>ValueError\<close> on an empty dictionary.\<close>

fun min_entry :: "('k \<times> 'v) list \<Rightarrow> ('v \<Rightarrow> real) \<Rightarrow> ('k \<times> 'v) option" where
  "min_entry [] f = None"
| "min_entry ((k, v) # d) f =
     (case min_entry d f of
        None \<Rightarrow> Some (k, v)
      | Some (k', v') \<Rightarrow> if f v' < f v then Some (k', v') else Some (k, v))"

definition min_key :: "('k \<times> 'v) list \<Rightarrow> ('v \<Rightarrow> real) \<Rightarrow> 'k option" where
  "min_key d f = map_option fst (min_entry d f)"

text \<open>\<open>BehaviorAnalyzer._maybe_cleanup\<close>\<close>

definition maybe_cleanup :: "BehaviorAnalyzer \<Rightarrow> real \<Rightarrow> BehaviorAnalyzer" where
  "maybe_cleanup a now =
     (if now - last_cleanup a < 60 then a
      else a\<lparr>last_cleanup := now,
             sessions := filter (\<lambda>(ip, s). \<not> last_seen s < now - SESSION_TTL) (sessions a)\<rparr>)"

text \<open>\<open>BehaviorAnalyzer.record_and_score\<close>, with \<open>time.time()\<close> as \<open>now\<close>: the score and the
  analyzer after the call. At capacity the dictionary is not empty, so \<open>min\<close> finds a
  key.\<close>

definition record_and_score :: "BehaviorAnalyzer \<Rightarrow> real \<Rightarrow> string \<Rightarrow> string \<Rightarrow> string \<Rightarrow> string
    \<Rightarrow> string \<Rightarrow> string option \<Rightarrow> string option \<Rightarrow> string \<Rightarrow> real \<times> BehaviorAnalyzer" where
  "record_and_score a now client_ip path method user_agent accept_language referer cookie
       header_order_hash =
     (let a1 = maybe_cleanup a now
      in case map_of (sessions a1) client_ip of
           Some session \<Rightarrow>
             (let session' = session_record session now path method user_agent accept_language
                               referer cookie header_order_hash
              in (compute_score session',
                  a1\<lparr>sessions := dict_set (sessions a1) client_ip session'\<rparr>))
         | None \<Rightarrow>
             (let d = (if length (sessions a1) \<ge> MAX_TRACKED
                       then (case min_key (sessions a1) last_seen of
                               Some oldest_ip \<Rightarrow> dict_del (sessions a1) oldest_ip
                             | None \<Rightarrow> sessions a1)
                       else sessions a1);
                  session' = session_record new_session now path method user_agent
                               accept_language referer cookie header_order_hash
              in (compute_score session', a1\<lparr>sessions := dict_set d client_ip session'\<rparr>)))"

text \<open>\<open>BehaviorAnalyzer.get_session\<close>\<close>

definition get_session :: "BehaviorAnalyzer \<Rightarrow> string \<Rightarrow> IPSession option" where
  "get_session a client_ip = map_of (sessions a) client_ip"

text \<open>The behavior score that \<open>reverse_proxy\<close> computes again for the classifier, in its
  graduated-mitigation branch.\<close>

definition handler_behavior_score :: "BehaviorAnalyzer \<Rightarrow> string \<Rightarrow> real" where
  "handler_behavior_score a client_ip =
     (case get_session a client_ip of
        None \<Rightarrow> 0
      | Some bscore \<Rightarrow> if request_count bscore \<ge> 3 then compute_score bscore else 0)"

subsection \<open>The request\<close>

text \<open>The request as the sources read it: the method, \<open>request.url.path\<close> (the route
  parameter \<open>path\<close> is this path without its leading slash, so \<open>url_path\<close> is the same
  string), the headers in receipt order with lower-case names, the cookies, and the
  peer address when there is one.\<close>

record request =
  req_method :: string
  req_path :: string
  req_headers :: "(string \<times> string) list"
  req_cookies :: "(string \<times> string) list"
  req_client_host :: "string option"

text \<open>\<open>headers.get(name)\<close> and \<open>headers.get(name, default)\<close>\<close>

definition header :: "request \<Rightarrow> string \<Rightarrow> string option" where
  "header req name = map_of (req_headers req) name"

text \<open>\<open>json.dumps\<close> of a list of header names (no character of a header name needs an
  escape).\<close>

definition json_dumps :: "string list \<Rightarrow> string" where
  "json_dumps keys = ''['' @ join '', '' (map (\<lambda>k. [CHR 0x22] @ k @ [CHR 0x22]) keys) @ '']''"

subsection \<open>proxy/fingerprint.py\<close>

text \<open>\<open>compute_header_order_hash\<close> of \<open>dict(request.headers)\<close>: the keys of the dictionary
  are the header names in the order of their first occurrence.\<close>

definition dict_keys :: "(string \<times> string) list \<Rightarrow> string list" where
  "dict_keys headers = rev (remdups (rev (map fst headers)))"

definition compute_header_order_hash :: "library \<Rightarrow> (string \<times> string) list \<Rightarrow> string" where
  "compute_header_order_hash lib headers = md5_hex lib (json_dumps (dict_keys headers))"

subsection \<open>detection/scorer.py, detection/baseline.py\<close>

text \<open>The statistics of \<open>BaselineModel\<close> that the scorer reads.\<close>

record BaselineModel =
  is_ready :: bool
  mean_header_count :: real
  std_header_count :: real
  mean_content_length :: real
  std_content_length :: real

text \<open>\<open>AnomalyScorer._score_user_agent\<close>\<close>

definition suspicious :: "string list" where
  "suspicious = [''python-requests'', ''curl'', ''wget'', ''go-http-client'',
                 ''httpclient'', ''java/'', ''libwww'', ''okhttp'']"

definition score_user_agent :: "string \<Rightarrow> real" where
  "score_user_agent ua =
     (if ua = [] then 0.9
      else if list_ex (\<lambda>s. sublist s (lower ua)) suspicious then 0.5
      else 0)"

text \<open>\<open>AnomalyScorer._score_path\<close>\<close>

definition score_path :: "string \<Rightarrow> real" where
  "score_path path =
     (if length path > 512 then 0.8
      else if length (remdups path) > 40 then 0.5
      else 0)"

text \<open>\<open>AnomalyScorer.score\<close> with the weights of \<open>WEIGHTS\<close>.\<close>

definition scorer_score :: "features \<Rightarrow> BaselineModel \<Rightarrow> real \<Rightarrow> real \<Rightarrow> real" where
  "scorer_score f baseline rate_ratio' behavior_score =
     (if \<not> is_ready baseline then 0
      else
        let hc = dict_get (feat_header_count f) 0;
            sig_header_count = z_to_score (real_of_int hc) (mean_header_count baseline)
                                 (std_header_count baseline);
            cl = dict_get (feat_content_length f) 0;
            sig_content_length = z_to_score (real_of_int cl) (mean_content_length baseline)
                                   (std_content_length baseline);
            sig_user_agent = score_user_agent (dict_get (feat_user_agent f) []);
            sig_path_entropy = score_path (dict_get (feat_path f) ''/'');
            sig_rate = min 1 (max 0 rate_ratio');
            sig_behavior = min 1 (max 0 behavior_score);
            composite = sig_header_count * 0.15 + sig_content_length * 0.10
                        + sig_user_agent * 0.20 + sig_path_entropy * 0.10
                        + sig_rate * 0.20 + sig_behavior * 0.25
        in min 1 (max 0 composite))"

subsection \<open>detection/engine.py\<close>

definition ML_BLEND_WEIGHT :: real where
  "ML_BLEND_WEIGHT = 0.4"

text \<open>\<open>DetectionEngine._extract_features\<close>; \<open>int\<close> of a \<open>content-length\<close> header that is
  not a number raises \<open>ValueError\<close>.\<close>

definition extract_features :: "library \<Rightarrow> request \<Rightarrow> string \<Rightarrow> py_error + features" where
  "extract_features lib req client_ip =
     (case (case header req ''content-length'' of None \<Rightarrow> Some 0 | Some v \<Rightarrow> py_int lib v) of
        None \<Rightarrow> Inl ValueError
      | Some cl \<Rightarrow>
          Inr \<lparr>feat_method = Some (req_method req),
               feat_path = Some (req_path req),
               feat_user_agent = Some (dict_get (header req ''user-agent'') []),
               feat_content_length = Some cl,
               feat_header_count = Some (int (length (req_headers req))),
               feat_accept_language = Some (dict_get (header req ''accept-language'') [])\<rparr>)"

text \<open>
  \<open>DetectionEngine.score_request\<close>, with \<open>time.time()\<close> as \<open>now\<close>. The results of the
  isolation forest are inputs: \<open>ml_ready\<close> is \<open>self.ml.is_ready\<close> and \<open>ml_score\<close> is what
  \<open>self.ml.score\<close> returns for the request. The result is the threat score and the
  behavior analyzer after the call; the training buffer of the forest and the
  observations of the baseline, which the call also extends, are not part of it. An
  exception comes with the analyzer it leaves: a content length beyond the range of a
  double raises \<open>OverflowError\<close> after the request has been recorded (in the scorer when
  the baseline is ready, in \<open>ml.record_sample\<close> at the latest).
\<close>

definition score_request :: "library \<Rightarrow> BaselineModel \<Rightarrow> bool \<Rightarrow> real \<Rightarrow> BehaviorAnalyzer
    \<Rightarrow> real \<Rightarrow> request \<Rightarrow> string \<Rightarrow> int \<Rightarrow> int
    \<Rightarrow> (py_error \<times> BehaviorAnalyzer) + (real \<times> BehaviorAnalyzer)" where
  "score_request lib baseline ml_ready ml_score analyzer now req client_ip rate_count rate_limit =
     (case extract_features lib req client_ip of
        Inl e \<Rightarrow> Inl (e, analyzer)
      | Inr f \<Rightarrow>
          let ratio = rate_ratio rate_count rate_limit;
              header_order_hash = compute_header_order_hash lib (req_headers req);
              (behavior_score, analyzer') =
                 record_and_score analyzer now client_ip
                   (dict_get (feat_path f) []) (dict_get (feat_method f) [])
                   (dict_get (feat_user_agent f) []) (dict_get (feat_accept_language f) [])
                   (header req ''referer'') (header req ''cookie'') header_order_hash
          in case float_of_int (dict_get (feat_content_length f) 0) of
               None \<Rightarrow> Inl (OverflowError, analyzer')
             | Some cl \<Rightarrow>
                 let heuristic_score = scorer_score f baseline ratio behavior_score;
                     score = (if ml_ready
                              then (1 - ML_BLEND_WEIGHT) * heuristic_score
                                   + ML_BLEND_WEIGHT * ml_score
                              else heuristic_score)
                 in Inr (min 1 (max 0 score), analyzer'))"

subsection \<open>Example values\<close>

text \<open>Stand-ins for the digests, for evaluating the functions above on examples: two
  hexadecimal digits of the byte sum. The limit on the digits of an integer literal is
  the default of the interpreter.\<close>

definition hex_digit :: "nat \<Rightarrow> char" where
  "hex_digit n = ''0123456789abcdef'' ! n"

definition byte_sum_hex :: "string \<Rightarrow> string" where
  "byte_sum_hex s =
     (let n = sum_list (map of_char s) mod 256 in [hex_digit (n div 16), hex_digit (n mod 16)])"

definition example_library :: library where
  "example_library = \<lparr>sha256_hex = byte_sum_hex,
                       hmac_sha256_hex = (\<lambda>key msg. byte_sum_hex (key @ msg)),
                       md5_hex = byte_sum_hex, int_max_str_digits = 4300\<rparr>"

text \<open>A challenge token whose time stamp is the literal of \<open>10 ** 309\<close>, with the signature
  and a proof-of-work nonce that check under the stand-in digests and the secret \<open>k\<close>.\<close>

definition huge_ts :: string where
  "huge_ts = CHR ''1'' # replicate 309 CHR ''0''"

definition huge_token :: string where
  "huge_token = ''10.0.0.1:39:'' @ huge_ts @ '':e8:99''"

text \<open>A challenge token whose time stamp has a no-break space before its digits.\<close>

definition nbsp_token :: string where
  "nbsp_token = ''10.0.0.1:ab:'' @ CHR 0xA0 # ''1000:7f:1899''"

text \<open>A client with two requests on record, one second apart.\<close>

definition example_session :: IPSession where
  "example_session = \<lparr>first_seen = 100, last_seen = 101, request_count = 2,
     inter_arrival_times = [1], paths_visited = [''/'', ''/''], methods_used = {''GET''},
     has_referer = False, has_cookies = False,
     user_agents = {}, accept_languages = {}, header_order_hashes = {''h''}\<rparr>"

definition example_analyzer :: BehaviorAnalyzer where
  "example_analyzer = \<lparr>sessions = [(''10.0.0.1'', example_session)], last_cleanup = 100\<rparr>"

definition example_request :: request where
  "example_request = \<lparr>req_method = ''GET'', req_path = ''/'',
     req_headers = [(''host'', ''example.org'')], req_cookies = [],
     req_client_host = Some ''10.0.0.1''\<rparr>"

definition example_baseline :: BaselineModel where
  "example_baseline = \<lparr>is_ready = False, mean_header_count = 0, std_header_count = 1,
     mean_content_length = 0, std_content_length = 1\<rparr>"

subsection \<open>storage/redis_client.py: the Redis server\<close>

text \<open>
  The keys the sources use fall into three families that never meet: sorted sets
  (\<open>rl:...\<close>), plain sets (\<open>sentinel:...\<close>) and strings (\<open>block:...\<close>). The server is one map
  per family and a map of expiry deadlines. A member of a rate-limit sorted set is the
  string \<open>f"{now}:{uuid.uuid4().hex[:8]}"\<close>; it is kept as the pair of its two parts.
  A key whose deadline has been reached is gone: \<open>purge\<close> is what the server does to a key
  before a command touches it at time \<open>now\<close>.
\<close>

type_synonym member = "real \<times> string"

record redis =
  zsets :: "string \<Rightarrow> (member \<times> real) list"
  sets :: "string \<Rightarrow> string set"
  strings :: "string \<Rightarrow> string option"
  expires :: "string \<Rightarrow> real option"

definition expired :: "redis \<Rightarrow> real \<Rightarrow> string \<Rightarrow> bool" where
  "expired r now key = (case expires r key of None \<Rightarrow> False | Some deadline \<Rightarrow> deadline \<le> now)"

definition purge :: "redis \<Rightarrow> real \<Rightarrow> string \<Rightarrow> redis" where
  "purge r now key =
     (if expired r now key
      then r\<lparr>zsets := (zsets r)(key := []), sets := (sets r)(key := {}),
             strings := (strings r)(key := None), expires := (expires r)(key := None)\<rparr>
      else r)"

text \<open>\<open>ZREMRANGEBYSCORE key -inf max\<close>: both ends are inclusive.\<close>

definition zremrangebyscore :: "redis \<Rightarrow> string \<Rightarrow> real \<Rightarrow> redis" where
  "zremrangebyscore r key mx =
     r\<lparr>zsets := (zsets r)(key := filter (\<lambda>(m, score). \<not> score \<le> mx) (zsets r key))\<rparr>"

text \<open>\<open>ZADD key score member\<close>: a member that is present only changes its score.\<close>

definition zadd :: "redis \<Rightarrow> string \<Rightarrow> member \<Rightarrow> real \<Rightarrow> redis" where
  "zadd r key m score =
     r\<lparr>zsets := (zsets r)(key :=
          (if m \<in> fst ` set (zsets r key)
           then map (\<lambda>(m', score'). if m' = m then (m', score) else (m', score')) (zsets r key)
           else zsets r key @ [(m, score)]))\<rparr>"

definition zcard :: "redis \<Rightarrow> string \<Rightarrow> nat" where
  "zcard r key = length (zsets r key)"

text \<open>\<open>ZCOUNT key min +inf\<close>\<close>

definition zcount :: "redis \<Rightarrow> string \<Rightarrow> real \<Rightarrow> nat" where
  "zcount r key mn = length (filter (\<lambda>(m, score). mn \<le> score) (zsets r key))"

text \<open>\<open>EXISTS key\<close>\<close>

definition exists_key :: "redis \<Rightarrow> string \<Rightarrow> bool" where
  "exists_key r key = (zsets r key \<noteq> [] \<or> sets r key \<noteq> {} \<or> strings r key \<noteq> None)"

text \<open>\<open>EXPIRE key seconds\<close> at time \<open>now\<close>: nothing happens to a key that does not exist.\<close>

definition expire :: "redis \<Rightarrow> string \<Rightarrow> real \<Rightarrow> real \<Rightarrow> redis" where
  "expire r key seconds now =
     (if exists_key r key then r\<lparr>expires := (expires r)(key \<mapsto> now + seconds)\<rparr> else r)"

text \<open>\<open>SET key value EX seconds\<close> at time \<open>now\<close>\<close>

definition set_ex :: "redis \<Rightarrow> string \<Rightarrow> string \<Rightarrow> real \<Rightarrow> real \<Rightarrow> redis" where
  "set_ex r key v seconds now =
     r\<lparr>zsets := (zsets r)(key := []), sets := (sets r)(key := {}),
       strings := (strings r)(key \<mapsto> v), expires := (expires r)(key \<mapsto> now + seconds)\<rparr>"

text \<open>\<open>DEL key\<close>\<close>

definition delete :: "redis \<Rightarrow> string \<Rightarrow> redis" where
  "delete r key =
     r\<lparr>zsets := (zsets r)(key := []), sets := (sets r)(key := {}),
       strings := (strings r)(key := None), expires := (expires r)(key := None)\<rparr>"

text \<open>\<open>SISMEMBER\<close>, \<open>SADD\<close>, \<open>SREM\<close>\<close>

definition sismember :: "redis \<Rightarrow> string \<Rightarrow> string \<Rightarrow> bool" where
  "sismember r key x = (x \<in> sets r key)"

definition sadd :: "redis \<Rightarrow> string \<Rightarrow> string \<Rightarrow> redis" where
  "sadd r key x = r\<lparr>sets := (sets r)(key := insert x (sets r key))\<rparr>"

definition srem :: "redis \<Rightarrow> string \<Rightarrow> string \<Rightarrow> redis" where
  "srem r key x =
     (let r' = r\<lparr>sets := (sets r)(key := sets r key - {x})\<rparr>
      in if exists_key r' key then r' else r'\<lparr>expires := (expires r')(key := None)\<rparr>)"

text \<open>An empty server.\<close>

definition empty_redis :: redis where
  "empty_redis = \<lparr>zsets = (\<lambda>k. []), sets = (\<lambda>k. {}), strings = (\<lambda>k. None),
                   expires = (\<lambda>k. None)\<rparr>"

subsection \<open>config.py\<close>

datatype ProtectionLevel = MONITOR | JS_CHALLENGE | RATE_LIMIT | BLOCK | BLACKHOLE

record settings =
  rate_limit_per_ip :: int
  rate_limit_per_subnet :: int
  rate_limit_global :: int
  protection_level :: ProtectionLevel
  under_attack_mode :: bool
  anomaly_threshold :: real
  jwt_secret :: string

text \<open>The defaults of \<open>Settings\<close>.\<close>

definition default_settings :: settings where
  "default_settings = \<lparr>rate_limit_per_ip = 100, rate_limit_per_subnet = 1000,
     rate_limit_global = 10000, protection_level = MONITOR, under_attack_mode = False,
     anomaly_threshold = 0.75, jwt_secret = ''change-me-in-production''\<rparr>"

subsection \<open>mitigation/rate_limiter.py\<close>

text \<open>\<open>redis_manager.client\<close> is \<open>None\<close> while there is no connection.\<close>

definition WINDOW_SEC :: int where
  "WINDOW_SEC = 60"

text \<open>The four pipelined commands of \<open>_check_key\<close> and \<open>check_rule_limit\<close>, run by the
  server at time \<open>now\<close>: the count (\<open>results[2]\<close>) and the server afterwards.\<close>

definition window_pipeline :: "redis \<Rightarrow> string \<Rightarrow> real \<Rightarrow> real \<Rightarrow> member \<Rightarrow> int
    \<Rightarrow> nat \<times> redis" where
  "window_pipeline r key now window_start m ttl =
     (let r0 = purge r now key;
          r1 = zremrangebyscore r0 key window_start;
          r2 = zadd r1 key m now;
          count = zcard r2 key;
          r3 = expire r2 key (real_of_int ttl) now
      in (count, r3))"

text \<open>\<open>RateLimiter._check_key\<close>\<close>

definition check_key :: "redis option \<Rightarrow> string \<Rightarrow> real \<Rightarrow> real \<Rightarrow> member \<Rightarrow> int
    \<Rightarrow> bool \<times> redis option" where
  "check_key client key now window_start m limit =
     (case client of
        None \<Rightarrow> (True, None)
      | Some r \<Rightarrow>
          (let (count, r') = window_pipeline r key now window_start m (WINDOW_SEC + 10)
           in (int count \<le> limit, Some r')))"

text \<open>\<open>RateLimiter._get_count\<close>, asked at time \<open>now\<close>\<close>

definition get_count :: "redis option \<Rightarrow> real \<Rightarrow> string \<Rightarrow> real \<Rightarrow> int" where
  "get_count client now key window_start =
     (case client of
        None \<Rightarrow> 0
      | Some r \<Rightarrow> int (zcount (purge r now key) key window_start))"

text \<open>Decimal digits of a natural number (\<open>str(n)\<close>).\<close>

fun show_nat :: "nat \<Rightarrow> string" where
  "show_nat n =
     (if n < 10 then [char_of (48 + n)] else show_nat (n div 10) @ [char_of (48 + n mod 10)])"

text \<open>An octet of \<open>ipaddress.IPv4Address\<close>: one to three ASCII digits, no leading zero, at
  most 255.\<close>

definition parse_octet :: "string \<Rightarrow> nat option" where
  "parse_octet s =
     (if s = [] \<or> \<not> list_all is_digit s \<or> length s > 3 then None
      else if s \<noteq> ''0'' \<and> hd s = CHR ''0'' then None
      else let n = foldl (\<lambda>a c. a * 10 + digit_val c) 0 s
           in if n > 255 then None else Some n)"

text \<open>\<open>RateLimiter._ip_to_subnet\<close>: the /24 network of a dotted quad, and the string itself
  when \<open>IPv4Address\<close> raises \<open>ValueError\<close>.\<close>

definition ip_to_subnet :: "string \<Rightarrow> string" where
  "ip_to_subnet ip =
     (case map parse_octet (split_on CHR ''.'' ip) of
        [Some a, Some b, Some c, Some d] \<Rightarrow>
          show_nat a @ ''.'' @ show_nat b @ ''.'' @ show_nat c @ ''.0/24''
      | _ \<Rightarrow> ip)"

text \<open>\<open>RateLimiter.allow\<close>, with \<open>time.time()\<close> as \<open>now\<close> and \<open>uuid.uuid4().hex[:8]\<close> as
  \<open>rnd\<close>.\<close>

definition allow :: "settings \<Rightarrow> redis option \<Rightarrow> string \<Rightarrow> real \<Rightarrow> string \<Rightarrow> bool \<times> redis option" where
  "allow cfg client client_ip now rnd =
     (case client of
        None \<Rightarrow> (True, None)
      | Some _ \<Rightarrow>
          (let window_start = now - real_of_int WINDOW_SEC;
               m = (now, rnd);
               ip_key = ''rl:ip:'' @ client_ip;
               (ok_ip, c1) = check_key client ip_key now window_start m (rate_limit_per_ip cfg)
           in if \<not> ok_ip then (False, c1)
              else
                let subnet = ip_to_subnet client_ip;
                    sub_key = ''rl:sub:'' @ subnet;
                    (ok_sub, c2) = check_key c1 sub_key now window_start m
                                     (rate_limit_per_subnet cfg)
                in if \<not> ok_sub then (False, c2)
                   else
                     let global_key = ''rl:global'';
                         (ok_global, c3) = check_key c2 global_key now window_start m
                                             (rate_limit_global cfg)
                     in if \<not> ok_global then (False, c3) else (True, c3)))"

text \<open>\<open>RateLimiter.allow_with_count\<close>\<close>

definition allow_with_count :: "settings \<Rightarrow> redis option \<Rightarrow> string \<Rightarrow> real \<Rightarrow> string
    \<Rightarrow> (bool \<times> int) \<times> redis option" where
  "allow_with_count cfg client client_ip now rnd =
     (case client of
        None \<Rightarrow> ((True, 0), None)
      | Some _ \<Rightarrow>
          (let window_start = now - real_of_int WINDOW_SEC;
               m = (now, rnd);
               ip_key = ''rl:ip:'' @ client_ip;
               (ok_ip, c1) = check_key client ip_key now window_start m (rate_limit_per_ip cfg)
           in if \<not> ok_ip then ((False, get_count c1 now ip_key window_start), c1)
              else
                let subnet = ip_to_subnet client_ip;
                    sub_key = ''rl:sub:'' @ subnet;
                    (ok_sub, c2) = check_key c1 sub_key now window_start m
                                     (rate_limit_per_subnet cfg)
                in if \<not> ok_sub then ((False, get_count c2 now ip_key window_start), c2)
                   else
                     let global_key = ''rl:global'';
                         (ok_global, c3) = check_key c2 global_key now window_start m
                                             (rate_limit_global cfg)
                     in if \<not> ok_global then ((False, get_count c3 now ip_key window_start), c3)
                        else ((True, get_count c3 now ip_key window_start), c3)))"

text \<open>\<open>RateLimiter.check_rule_limit\<close>\<close>

definition check_rule_limit :: "redis option \<Rightarrow> string \<Rightarrow> string \<Rightarrow> int \<Rightarrow> int \<Rightarrow> real \<Rightarrow> string
    \<Rightarrow> (bool \<times> int) \<times> redis option" where
  "check_rule_limit client client_ip rule_name limit window_sec now rnd =
     (case client of
        None \<Rightarrow> ((True, 0), None)
      | Some r \<Rightarrow>
          (let window_start = now - real_of_int window_sec;
               m = (now, rnd);
               key = ''rl:rule:'' @ rule_name @ '':'' @ client_ip;
               (count, r') = window_pipeline r key now window_start m (window_sec + 10)
           in ((int count \<le> limit, int count), Some r')))"

text \<open>\<open>RateLimiter.get_ip_count\<close>\<close>

definition get_ip_count :: "redis option \<Rightarrow> string \<Rightarrow> real \<Rightarrow> int" where
  "get_ip_count client client_ip now =
     (case client of
        None \<Rightarrow> 0
      | Some _ \<Rightarrow> get_count client now (''rl:ip:'' @ client_ip) (now - real_of_int WINDOW_SEC))"


text \<open>Successive calls of \<open>allow\<close> for one client, each with its time and its random
  suffix: the results in call order, and the client afterwards.\<close>

fun allow_run :: "settings \<Rightarrow> redis option \<Rightarrow> string \<Rightarrow> (real \<times> string) list
    \<Rightarrow> bool list \<times> redis option" where
  "allow_run cfg client client_ip [] = ([], client)"
| "allow_run cfg client client_ip ((now, rnd) # calls) =
     (let (ok, c1) = allow cfg client client_ip now rnd;
          (oks, c2) = allow_run cfg c1 client_ip calls
      in (ok # oks, c2))"

subsection \<open>mitigation/blocker.py\<close>

definition BLOCKLIST_KEY :: string where
  "BLOCKLIST_KEY = ''sentinel:blocklist''"

definition ALLOWLIST_KEY :: string where
  "ALLOWLIST_KEY = ''sentinel:allowlist''"

text \<open>\<open>IPBlocker.is_blocked\<close>, asked at time \<open>now\<close>\<close>

definition is_blocked :: "redis option \<Rightarrow> string \<Rightarrow> real \<Rightarrow> bool" where
  "is_blocked client ip now =
     (case client of
        None \<Rightarrow> False
      | Some r \<Rightarrow>
          if sismember (purge r now ALLOWLIST_KEY) ALLOWLIST_KEY ip then False
          else if exists_key (purge r now (''block:'' @ ip)) (''block:'' @ ip) then True
          else sismember (purge r now BLOCKLIST_KEY) BLOCKLIST_KEY ip)"

text \<open>\<open>IPBlocker.block\<close> at time \<open>now\<close>. A duration of \<open>None\<close> or 0 is a permanent block; the
  server refuses a negative expiry (\<open>ResponseError\<close>).\<close>

definition block :: "redis option \<Rightarrow> string \<Rightarrow> string \<Rightarrow> int option \<Rightarrow> real
    \<Rightarrow> py_error + redis option" where
  "block client ip reason duration_sec now =
     (case client of
        None \<Rightarrow> Inr None
      | Some r \<Rightarrow>
          (case duration_sec of
             Some d \<Rightarrow>
               if d \<noteq> 0
               then (if d < 0 then Inl ResponseError
                     else Inr (Some (set_ex (purge r now (''block:'' @ ip)) (''block:'' @ ip)
                                       reason (real_of_int d) now)))
               else Inr (Some (sadd (purge r now BLOCKLIST_KEY) BLOCKLIST_KEY ip))
           | None \<Rightarrow> Inr (Some (sadd (purge r now BLOCKLIST_KEY) BLOCKLIST_KEY ip))))"

text \<open>\<open>IPBlocker.unblock\<close>\<close>

definition unblock :: "redis option \<Rightarrow> string \<Rightarrow> real \<Rightarrow> redis option" where
  "unblock client ip now =
     (case client of
        None \<Rightarrow> None
      | Some r \<Rightarrow>
          (let r1 = delete (purge r now (''block:'' @ ip)) (''block:'' @ ip)
           in Some (srem (purge r1 now BLOCKLIST_KEY) BLOCKLIST_KEY ip)))"

text \<open>\<open>IPBlocker.allow\<close>\<close>

definition allowlist :: "redis option \<Rightarrow> string \<Rightarrow> real \<Rightarrow> redis option" where
  "allowlist client ip now =
     (case client of
        None \<Rightarrow> None
      | Some r \<Rightarrow> Some (sadd (purge r now ALLOWLIST_KEY) ALLOWLIST_KEY ip))"

subsection \<open>The invariant of a run of \<open>allow\<close>\<close>

text \<open>Between two calls of a run for one client: the client's window holds the members
  of the calls made so far, each with its time as score; none of them is due to leave the
  window or to be met again by a call still to come; the key does not expire under them;
  and the subnet and global windows have room for the calls still to come.\<close>

definition window_inv :: "settings \<Rightarrow> string \<Rightarrow> redis \<Rightarrow> (real \<times> string) list
    \<Rightarrow> (real \<times> string) list \<Rightarrow> bool" where
  "window_inv cfg client_ip r seen calls \<longleftrightarrow>
     zsets r (''rl:ip:'' @ client_ip) = map (\<lambda>c. (c, fst c)) seen
     \<and> (\<forall>d \<in> set seen. \<forall>c \<in> set calls. fst c - 60 < fst d \<and> d \<noteq> c)
     \<and> (\<forall>c \<in> set calls. expired r (fst c) (''rl:ip:'' @ client_ip) \<longrightarrow> seen = [])
     \<and> int (length (zsets r (''rl:sub:'' @ ip_to_subnet client_ip))) + int (length calls)
           \<le> rate_limit_per_subnet cfg
     \<and> int (length (zsets r ''rl:global'')) + int (length calls) \<le> rate_limit_global cfg"

text \<open>A server on which the window of a client holds one member that is 65 seconds old
  at time 100, under a key that expires at 105.\<close>

definition stale_window :: redis where
  "stale_window = empty_redis\<lparr>zsets := (\<lambda>k. if k = ''rl:ip:10.0.0.1''
       then [((35, ''0000aaaa''), 35)] else []),
     expires := (\<lambda>k. if k = ''rl:ip:10.0.0.1'' then Some 105 else None)\<rparr>"

subsection \<open>mitigation/challenge.py\<close>

definition CHALLENGE_COOKIE :: string where
  "CHALLENGE_COOKIE = ''sentinel_challenge''"

definition CHALLENGE_TTL :: int where
  "CHALLENGE_TTL = 3600"

text \<open>\<open>str(n)\<close> for an integer, and \<open>int(x)\<close> for a float (towards zero).\<close>

definition show_int :: "int \<Rightarrow> string" where
  "show_int n = (if n < 0 then ''-'' @ show_nat (nat (- n)) else show_nat (nat n))"

definition int_of_float :: "real \<Rightarrow> int" where
  "int_of_float x = (if x < 0 then - \<lfloor>- x\<rfloor> else \<lfloor>x\<rfloor>)"

text \<open>A response: the status code and the content. The challenge page is a fixed HTML
  document around the token; its content is kept as the token.\<close>

datatype content = Empty | Text string | ChallengePage string

record response =
  status_code :: nat
  body :: content

text \<open>\<open>ChallengeManager._generate_challenge\<close>, with \<open>secrets.token_hex(16)\<close> as \<open>nonce\<close> and
  \<open>time.time()\<close> as \<open>now\<close>.\<close>

definition generate_challenge :: "library \<Rightarrow> string \<Rightarrow> string \<Rightarrow> string \<Rightarrow> real \<Rightarrow> string" where
  "generate_challenge lib secret client_ip nonce now =
     (let ts = show_int (int_of_float now);
          data = client_ip @ '':'' @ nonce @ '':'' @ ts;
          sig = hmac_sha256_hex lib secret data
      in data @ '':'' @ sig)"

text \<open>\<open>ChallengeManager._verify_token\<close>; every exception inside is caught and gives
  \<open>False\<close>: the \<open>ValueError\<close> of \<open>int(ts)\<close>, and the \<open>OverflowError\<close> of
  \<open>time.time() - int(ts)\<close>.\<close>

definition verify_token :: "library \<Rightarrow> string \<Rightarrow> string \<Rightarrow> string \<Rightarrow> real \<Rightarrow> bool" where
  "verify_token lib secret token client_ip now =
     (case split_on CHR '':'' token of
        [ip, nonce, ts, sig, pow_nonce] \<Rightarrow>
          if ip \<noteq> client_ip then False
          else
            (case py_int lib ts of
               None \<Rightarrow> False
             | Some t \<Rightarrow>
                 (case float_of_int t of
                    None \<Rightarrow> False
                  | Some issued \<Rightarrow>
                      if now - issued > real_of_int CHALLENGE_TTL then False
                      else
                        let original = ip @ '':'' @ nonce @ '':'' @ ts;
                            expected = hmac_sha256_hex lib secret original
                        in if sig \<noteq> expected then False
                           else
                             let full_token = original @ '':'' @ sig;
                                 pow_input = full_token @ '':'' @ pow_nonce;
                                 pow_hash = sha256_hex lib pow_input
                             in prefix ''00'' pow_hash))
      | _ \<Rightarrow> False)"

text \<open>\<open>ChallengeManager.maybe_challenge\<close>\<close>

definition maybe_challenge :: "library \<Rightarrow> string \<Rightarrow> request \<Rightarrow> string \<Rightarrow> real \<Rightarrow> string
    \<Rightarrow> response option" where
  "maybe_challenge lib secret req client_ip now nonce =
     (let page = \<lparr>status_code = 503,
                   body = ChallengePage (generate_challenge lib secret client_ip nonce now)\<rparr>
      in case map_of (req_cookies req) CHALLENGE_COOKIE of
           None \<Rightarrow> Some page
         | Some cookie \<Rightarrow>
             if cookie \<noteq> [] \<and> verify_token lib secret cookie client_ip now then None
             else Some page)"

subsection \<open>proxy/fingerprint.py: the composite identifier\<close>

record RequestFingerprint =
  fp_client_ip :: string
  fp_ja3_hash :: "string option"
  fp_header_order_hash :: "string option"
  fp_user_agent :: "string option"
  fp_accept_language :: "string option"
  fp_accept_encoding :: "string option"
  fp_connection_type :: "string option"
  fp_raw_headers :: "(string \<times> string) list"

text \<open>\<open>x or ""\<close> for an optional string\<close>

definition or_empty :: "string option \<Rightarrow> string" where
  "or_empty v = (case v of None \<Rightarrow> [] | Some s \<Rightarrow> s)"

text \<open>\<open>RequestFingerprint.composite_id\<close>\<close>

definition composite_id :: "library \<Rightarrow> RequestFingerprint \<Rightarrow> string" where
  "composite_id lib fp =
     (let parts = [or_empty (fp_ja3_hash fp), or_empty (fp_header_order_hash fp),
                   or_empty (fp_user_agent fp), or_empty (fp_accept_language fp)];
          digest = take 16 (sha256_hex lib (join ''|'' parts))
      in fp_client_ip fp @ '':'' @ digest)"

text \<open>\<open>fingerprint_request\<close>\<close>

definition fingerprint_request :: "library \<Rightarrow> request \<Rightarrow> string \<Rightarrow> string option
    \<Rightarrow> RequestFingerprint" where
  "fingerprint_request lib req client_ip ja3 =
     \<lparr>fp_client_ip = client_ip, fp_ja3_hash = ja3,
      fp_header_order_hash = Some (compute_header_order_hash lib (req_headers req)),
      fp_user_agent = header req ''user-agent'',
      fp_accept_language = header req ''accept-language'',
      fp_accept_encoding = header req ''accept-encoding'',
      fp_connection_type = header req ''connection'',
      fp_raw_headers = req_headers req\<rparr>"

text \<open>Two fingerprints of one client that differ in the accept-encoding only.\<close>

definition example_fingerprint :: RequestFingerprint where
  "example_fingerprint = \<lparr>fp_client_ip = ''10.0.0.1'', fp_ja3_hash = None,
     fp_header_order_hash = Some ''0f'', fp_user_agent = Some ''curl/8.0'',
     fp_accept_language = Some ''en'', fp_accept_encoding = Some ''gzip'',
     fp_connection_type = None, fp_raw_headers = []\<rparr>"

subsection \<open>rules/engine.py\<close>

record RateLimit =
  per_ip :: "string option"
  per_subnet :: "string option"

record EscalationStep =
  step_threshold :: real
  step_action :: string
  step_duration :: "string option"

record Rule =
  rule_name :: string
  rule_match_path :: "string option"
  rule_match_method :: "string option"
  rule_limits :: "RateLimit option"
  rule_escalation :: "EscalationStep list"
  rule_enabled :: bool

text \<open>\<open>RulesEngine._path_matches\<close>\<close>

definition path_matches :: "string \<Rightarrow> string \<Rightarrow> bool" where
  "path_matches request_path rule_path =
     (if suffix ''*'' rule_path then prefix (butlast rule_path) request_path
      else request_path = rule_path)"

text \<open>\<open>RulesEngine.match_request\<close>, over the rules loaded into the engine.\<close>

definition rule_matches :: "Rule \<Rightarrow> string \<Rightarrow> string \<Rightarrow> bool" where
  "rule_matches rule path method =
     (if \<not> rule_enabled rule then False
      else if truthy (rule_match_path rule)
              \<and> \<not> path_matches path (or_empty (rule_match_path rule)) then False
      else if truthy (rule_match_method rule)
              \<and> upper (or_empty (rule_match_method rule)) \<noteq> upper method then False
      else True)"

definition match_request :: "Rule list \<Rightarrow> string \<Rightarrow> string \<Rightarrow> Rule list" where
  "match_request rules path method = filter (\<lambda>rule. rule_matches rule path method) rules"

definition unit_map :: "(string \<times> int) list" where
  "unit_map = [(''second'', 1), (''minute'', 60), (''hour'', 3600), (''day'', 86400)]"

text \<open>\<open>RulesEngine.parse_rate_string\<close>: the count and the window in seconds, or the
  \<open>ValueError\<close> of \<open>int\<close>.\<close>

definition parse_rate_string :: "library \<Rightarrow> string \<Rightarrow> py_error + (int \<times> int)" where
  "parse_rate_string lib rate_str =
     (case split_on CHR ''/'' rate_str of
        [] \<Rightarrow> Inl IndexError
      | p0 # ps \<Rightarrow>
          (case py_int lib p0 of
             None \<Rightarrow> Inl ValueError
           | Some count \<Rightarrow>
               let unit = (case ps of p1 # _ \<Rightarrow> lower p1 | [] \<Rightarrow> ''minute'');
                   window = (case map_of unit_map unit of Some w \<Rightarrow> w | None \<Rightarrow> 60)
               in Inr (count, window)))"

text \<open>The rate strings of the specification's grammar
  \<open>^(\d+)/(second|minute|hour|day)$\<close>, the value of a string of digits, and the window
  the specification gives each unit.\<close>

definition rate_grammar :: "string \<Rightarrow> bool" where
  "rate_grammar s =
     (case split_on CHR ''/'' s of
        [ds, u] \<Rightarrow> ds \<noteq> [] \<and> list_all is_digit ds
                    \<and> u \<in> set [''second'', ''minute'', ''hour'', ''day'']
      | _ \<Rightarrow> False)"

definition decimal :: "string \<Rightarrow> nat" where
  "decimal ds = foldl (\<lambda>a c. a * 10 + digit_val c) 0 ds"

definition unit_seconds :: "string \<Rightarrow> int" where
  "unit_seconds u =
     (if u = ''second'' then 1 else if u = ''minute'' then 60
      else if u = ''hour'' then 3600 else 86400)"

subsection \<open>proxy/handler.py\<close>

text \<open>\<open>get_client_ip\<close>\<close>

definition get_client_ip :: "request \<Rightarrow> string" where
  "get_client_ip req =
     (let forwarded = header req ''x-forwarded-for''
      in if truthy forwarded
         then strip (case split_on CHR '','' (or_empty forwarded) of p # _ \<Rightarrow> p | [] \<Rightarrow> [])
         else (case req_client_host req of Some host \<Rightarrow> host | None \<Rightarrow> ''0.0.0.0''))"

text \<open>\<open>_resolve_escalation\<close>: \<open>sorted\<close> is stable, as \<^const>\<open>sort_key\<close> is.\<close>

definition resolve_escalation :: "EscalationStep list \<Rightarrow> real \<Rightarrow> string" where
  "resolve_escalation steps usage_pct =
     foldl (\<lambda>action step. if usage_pct \<ge> step_threshold step then step_action step else action)
       ''rate_limit'' (sort_key step_threshold steps)"

text \<open>\<open>_duration_to_seconds\<close>; \<open>None\<close> is the \<open>ValueError\<close> of \<open>int\<close>.\<close>

definition duration_to_seconds :: "library \<Rightarrow> string \<Rightarrow> int option" where
  "duration_to_seconds lib dur0 =
     (let dur = lower (strip dur0)
      in if suffix ''m'' dur then map_option (\<lambda>n. n * 60) (py_int lib (butlast dur))
         else if suffix ''h'' dur then map_option (\<lambda>n. n * 3600) (py_int lib (butlast dur))
         else if suffix ''d'' dur then map_option (\<lambda>n. n * 86400) (py_int lib (butlast dur))
         else if suffix ''s'' dur then py_int lib (butlast dur)
         else py_int lib dur)"

text \<open>\<open>_parse_duration\<close>\<close>

definition parse_duration :: "library \<Rightarrow> EscalationStep list \<Rightarrow> py_error + int option" where
  "parse_duration lib steps =
     (case find (\<lambda>step. truthy (step_duration step)) (rev (sort_key step_threshold steps)) of
        None \<Rightarrow> Inr None
      | Some step \<Rightarrow>
          (case duration_to_seconds lib (or_empty (step_duration step)) of
             None \<Rightarrow> Inl ValueError
           | Some secs \<Rightarrow> Inr (Some secs)))"

text \<open>
  \<open>reverse_proxy\<close>, from its first line to the global rate limit. The request is handled
  at the instant \<open>now\<close>; \<open>uuid i\<close> is the random suffix of the \<open>i\<close>-th window member the
  request adds, \<open>nonce\<close> the nonce of a challenge it issues. The outcome is a response, or
  the client address and the rate count with which the handler goes on to detection
  scoring. The traffic counters, the event ring, the log and the alerts do not influence
  the outcome and are left out; an exception that leaves the handler is \<open>Inl\<close>.
\<close>

datatype outcome = Respond response | Proceed string int

definition reserved_path :: "string \<Rightarrow> bool" where
  "reserved_path request_path =
     (prefix ''/api/'' request_path \<or> prefix ''/ws/'' request_path
      \<or> prefix ''/openapi.json'' request_path)"

text \<open>What the handler does once a rule's limit is exceeded. The usage is the exact
  quotient; in double arithmetic \<open>count / limit_count * 100\<close> can fall short of it by a
  rounding error.\<close>

definition rule_exceeded :: "library \<Rightarrow> settings \<Rightarrow> redis option \<Rightarrow> request \<Rightarrow> string \<Rightarrow> Rule
    \<Rightarrow> int \<Rightarrow> int \<Rightarrow> real \<Rightarrow> string \<Rightarrow> py_error + (response \<times> redis option)" where
  "rule_exceeded lib cfg client req client_ip rule count limit_count now nonce =
     (let usage_pct = (if limit_count \<noteq> 0
                       then real_of_int count / real_of_int limit_count * 100 else 0);
          escalation_action = resolve_escalation (rule_escalation rule) usage_pct
      in if escalation_action = ''block'' then
           (case parse_duration lib (rule_escalation rule) of
              Inl e \<Rightarrow> Inl e
            | Inr duration \<Rightarrow>
                (case block client client_ip (''Rule escalation: '' @ rule_name rule) duration now of
                   Inl e \<Rightarrow> Inl e
                 | Inr client' \<Rightarrow>
                     Inr (\<lparr>status_code = 403, body = Text ''Forbidden''\<rparr>, client')))
         else if escalation_action = ''js_challenge'' then
           (case maybe_challenge lib (jwt_secret cfg) req client_ip now nonce of
              Some challenge_resp \<Rightarrow> Inr (challenge_resp, client)
            | None \<Rightarrow> Inr (\<lparr>status_code = 429, body = Text ''Too Many Requests''\<rparr>, client))
         else Inr (\<lparr>status_code = 429, body = Text ''Too Many Requests''\<rparr>, client))"

text \<open>The loop over the matched rules: the response of the first rule whose limit is
  exceeded, if any, the client, and the number of random suffixes drawn.\<close>

fun rule_stage :: "library \<Rightarrow> settings \<Rightarrow> request \<Rightarrow> string \<Rightarrow> real \<Rightarrow> (nat \<Rightarrow> string) \<Rightarrow> string
    \<Rightarrow> redis option \<Rightarrow> Rule list \<Rightarrow> nat \<Rightarrow> py_error + (response option \<times> redis option \<times> nat)" where
  "rule_stage lib cfg req client_ip now uuid nonce client [] i = Inr (None, client, i)"
| "rule_stage lib cfg req client_ip now uuid nonce client (rule # rest) i =
     (if truthy (case rule_limits rule of None \<Rightarrow> None | Some l \<Rightarrow> per_ip l) then
        (case parse_rate_string lib
                (or_empty (case rule_limits rule of None \<Rightarrow> None | Some l \<Rightarrow> per_ip l)) of
           Inl e \<Rightarrow> Inl e
         | Inr (limit_count, limit_window) \<Rightarrow>
             (case check_rule_limit client client_ip (rule_name rule) limit_count limit_window
                     now (uuid i) of
                ((allowed, count), client') \<Rightarrow>
                  if \<not> allowed then
                    (case rule_exceeded lib cfg client' req client_ip rule count limit_count
                            now nonce of
                       Inl e \<Rightarrow> Inl e
                     | Inr (resp, client'') \<Rightarrow> Inr (Some resp, client'', Suc i))
                  else rule_stage lib cfg req client_ip now uuid nonce client' rest (Suc i)))
      else rule_stage lib cfg req client_ip now uuid nonce client rest i)"

definition reverse_proxy :: "library \<Rightarrow> settings \<Rightarrow> Rule list \<Rightarrow> redis option \<Rightarrow> request \<Rightarrow> real
    \<Rightarrow> (nat \<Rightarrow> string) \<Rightarrow> string \<Rightarrow> py_error + (outcome \<times> redis option)" where
  "reverse_proxy lib cfg rules client req now uuid nonce =
     (if reserved_path (req_path req)
      then Inr (Respond \<lparr>status_code = 404, body = Empty\<rparr>, client)
      else
        let client_ip = get_client_ip req;
            url_path = req_path req
        in if is_blocked client client_ip now
           then Inr (Respond \<lparr>status_code = 403, body = Text ''Forbidden''\<rparr>, client)
           else
             (case rule_stage lib cfg req client_ip now uuid nonce client
                     (match_request rules url_path (req_method req)) 0 of
                Inl e \<Rightarrow> Inl e
              | Inr (Some resp, client', i) \<Rightarrow> Inr (Respond resp, client')
              | Inr (None, client', i) \<Rightarrow>
                  (case allow_with_count cfg client' client_ip now (uuid i) of
                     ((rate_allowed, rate_count), client'') \<Rightarrow>
                       if \<not> rate_allowed
                       then Inr (Respond \<lparr>status_code = 429,
                                            body = Text ''Too Many Requests''\<rparr>, client'')
                       else Inr (Proceed client_ip rate_count, client''))))"

subsection \<open>Example rules\<close>

text \<open>The rule of the specification's rule file and of \<open>tests/test_rules.py\<close>, and the same
  rule on a path outside the reserved prefixes.\<close>

definition login_ladder :: "EscalationStep list" where
  "login_ladder =
     [\<lparr>step_threshold = 80, step_action = ''js_challenge'', step_duration = None\<rparr>,
      \<lparr>step_threshold = 95, step_action = ''block'', step_duration = Some ''1h''\<rparr>]"

definition login_protection :: Rule where
  "login_protection = \<lparr>rule_name = ''Login Protection'',
     rule_match_path = Some ''/api/login'', rule_match_method = Some ''POST'',
     rule_limits = Some \<lparr>per_ip = Some ''5/minute'', per_subnet = Some ''50/minute''\<rparr>,
     rule_escalation = login_ladder,
     rule_enabled = True\<rparr>"

definition login_request :: "string \<Rightarrow> request" where
  "login_request path = \<lparr>req_method = ''POST'', req_path = path,
     req_headers = [(''host'', ''example.org''), (''content-length'', ''24'')],
     req_cookies = [], req_client_host = Some ''203.0.113.9''\<rparr>"

definition example_uuid :: "nat \<Rightarrow> string" where
  "example_uuid i = ''0000000f''"

text \<open>A server on which the client has five members, seconds old, in the window of a
  key.\<close>

definition five_in_window :: "string \<Rightarrow> redis" where
  "five_in_window key = empty_redis\<lparr>zsets := (\<lambda>k. if k = key
       then [((995, ''0000000a''), 995), ((996, ''0000000b''), 996), ((997, ''0000000c''), 997),
             ((998, ''0000000d''), 998), ((999, ''0000000e''), 999)]
       else []),
     expires := (\<lambda>k. if k = key then Some 1069 else None)\<rparr>"

section \<open>Properties\<close>

subsection \<open>The z-score ramp\<close>

lemma z_to_score_closed_form:
  "0 < std \<Longrightarrow> z_to_score x mean std = min 1 (max 0 ((\<bar>x - mean\<bar> / std - 1.5) / 1.5))"
  by (auto simp: z_to_score_def Let_def min_def max_def field_simps)

text \<open>
  Claim C7. For a fixed mean and a positive standard deviation, \<open>_z_to_score\<close> is a
  function of the distance \<open>|x - mean|\<close> alone; with \<open>z = |x - mean| / std\<close> it is 0 for
  \<open>z \<le> 1.5\<close>, \<open>(z - 1.5) / 1.5\<close> for \<open>1.5 \<le> z \<le> 3\<close> and 1 for \<open>z \<ge> 3\<close> (the pieces
  agree at both joints), it is monotone non-decreasing in the distance, and it is
  continuous, in the distance and in \<open>x\<close>.
\<close>

theorem C7_z_to_score_ramp:
  assumes "0 < std"
  shows "(\<forall>x. \<bar>x - mean\<bar> / std \<le> 1.5 \<longrightarrow> z_to_score x mean std = 0)
       \<and> (\<forall>x. 1.5 \<le> \<bar>x - mean\<bar> / std \<and> \<bar>x - mean\<bar> / std \<le> 3
              \<longrightarrow> z_to_score x mean std = (\<bar>x - mean\<bar> / std - 1.5) / 1.5)
       \<and> (\<forall>x. 3 \<le> \<bar>x - mean\<bar> / std \<longrightarrow> z_to_score x mean std = 1)
       \<and> (\<forall>x. z_to_score x mean std = z_to_score (mean + \<bar>x - mean\<bar>) mean std)
       \<and> (\<forall>x y. \<bar>x - mean\<bar> \<le> \<bar>y - mean\<bar> \<longrightarrow> z_to_score x mean std \<le> z_to_score y mean std)
       \<and> continuous_on {0..} (\<lambda>d. z_to_score (mean + d) mean std)
       \<and> continuous_on UNIV (\<lambda>x. z_to_score x mean std)"
proof -
  have cf: "\<And>x. z_to_score x mean std = min 1 (max 0 ((\<bar>x - mean\<bar> / std - 1.5) / 1.5))"
    using assms by (rule z_to_score_closed_form)
  have ramp: "\<And>z::real. (z \<le> 1.5 \<longrightarrow> min 1 (max 0 ((z - 1.5) / 1.5)) = 0)
      \<and> (1.5 \<le> z \<and> z \<le> 3 \<longrightarrow> min 1 (max 0 ((z - 1.5) / 1.5)) = (z - 1.5) / 1.5)
      \<and> (3 \<le> z \<longrightarrow> min 1 (max 0 ((z - 1.5) / 1.5)) = 1)"
    by (simp add: min_def max_def field_simps)
  have p1: "\<forall>x. \<bar>x - mean\<bar> / std \<le> 1.5 \<longrightarrow> z_to_score x mean std = 0"
    unfolding cf using ramp by blast
  have p2: "\<forall>x. 1.5 \<le> \<bar>x - mean\<bar> / std \<and> \<bar>x - mean\<bar> / std \<le> 3
              \<longrightarrow> z_to_score x mean std = (\<bar>x - mean\<bar> / std - 1.5) / 1.5"
    unfolding cf using ramp by blast
  have p3: "\<forall>x. 3 \<le> \<bar>x - mean\<bar> / std \<longrightarrow> z_to_score x mean std = 1"
    unfolding cf using ramp by blast
  have p4: "\<forall>x. z_to_score x mean std = z_to_score (mean + \<bar>x - mean\<bar>) mean std"
    by (simp add: cf)
  have p5: "\<forall>x y. \<bar>x - mean\<bar> \<le> \<bar>y - mean\<bar> \<longrightarrow> z_to_score x mean std \<le> z_to_score y mean std"
  proof (intro allI impI)
    fix x y :: real
    assume le: "\<bar>x - mean\<bar> \<le> \<bar>y - mean\<bar>"
    then have "\<bar>x - mean\<bar> / std \<le> \<bar>y - mean\<bar> / std"
      using assms by (simp add: divide_right_mono)
    then have "(\<bar>x - mean\<bar> / std - 1.5) / 1.5 \<le> (\<bar>y - mean\<bar> / std - 1.5) / 1.5"
      by (simp add: divide_right_mono)
    then show "z_to_score x mean std \<le> z_to_score y mean std"
      unfolding cf by (intro min.mono max.mono order_refl)
  qed
  have c2: "continuous_on UNIV (\<lambda>x. z_to_score x mean std)"
    unfolding cf using assms by (intro continuous_intros) simp_all
  have c1: "continuous_on {0..} (\<lambda>d. z_to_score (mean + d) mean std)"
    unfolding cf using assms by (intro continuous_intros) simp_all
  from p1 p2 p3 p4 p5 c1 c2 show ?thesis by blast
qed

text \<open>At mean 0 and deviation 2: distance 3 is below the ramp, distance 4 is on it, distance
  7 is above it.\<close>

theorem C7_z_to_score_ramp_witness:
  "(0::real) < 2 \<and> z_to_score 3 0 2 = 0 \<and> z_to_score 4 0 2 = 1 / 3 \<and> z_to_score (-7) 0 2 = 1
     \<and> z_to_score 3 0 2 \<le> z_to_score 4 0 2"
proof -
  have h: "(0::real) < 2" by simp
  note r = C7_z_to_score_ramp [OF h, of 0]
  from r have "\<bar>3 - 0\<bar> / 2 \<le> (1.5::real) \<longrightarrow> z_to_score 3 0 2 = 0" by blast
  then have a: "z_to_score 3 0 2 = 0" by simp
  from r have "1.5 \<le> \<bar>4 - 0\<bar> / (2::real) \<and> \<bar>4 - 0\<bar> / 2 \<le> (3::real)
      \<longrightarrow> z_to_score 4 0 2 = (\<bar>4 - 0\<bar> / 2 - 1.5) / 1.5" by blast
  then have b: "z_to_score 4 0 2 = 1 / 3" by simp
  from r have "3 \<le> \<bar>- 7 - 0\<bar> / (2::real) \<longrightarrow> z_to_score (- 7) 0 2 = 1" by blast
  then have c: "z_to_score (-7) 0 2 = 1" by simp
  from r have "\<bar>3 - 0\<bar> \<le> \<bar>4 - (0::real)\<bar> \<longrightarrow> z_to_score 3 0 2 \<le> z_to_score 4 0 2" by blast
  then have d: "z_to_score 3 0 2 \<le> z_to_score 4 0 2" by simp
  show ?thesis using h a b c d by simp
qed

subsection \<open>The attack classifier\<close>

text \<open>Lowering a string gives a string of small letters exactly when the two are equal up
  to case.\<close>

lemma capital_lowered: "is_capital c \<Longrightarrow> of_char (lower_char c) = (of_char c :: nat) + 32"
  by (auto simp: lower_char_def is_capital_def Let_def)

lemma lowered_not_capital: "lower_char b = b \<Longrightarrow> \<not> is_capital b"
  using capital_lowered [of b] by auto

lemma lower_char_caseless:
  assumes "lower_char b = b"
  shows "lower_char a = b \<longleftrightarrow> caseless_char a b"
proof (cases "is_capital a")
  case True
  have "lower_char a = b \<longleftrightarrow> (of_char (lower_char a) :: nat) = of_char b"
    by auto
  with True capital_lowered [of a] lowered_not_capital [OF assms] show ?thesis
    by (auto simp: caseless_char_def)
next
  case False
  then have "lower_char a = a"
    by (simp add: lower_char_def)
  with False lowered_not_capital [OF assms] show ?thesis
    by (auto simp: caseless_char_def)
qed

lemma lower_caseless: "lower p = p \<Longrightarrow> lower s = p \<longleftrightarrow> caseless_eq s p"
proof (induction s arbitrary: p)
  case Nil
  then show ?case by (auto simp: lower_def caseless_eq_def)
next
  case (Cons a s)
  show ?case
  proof (cases p)
    case Nil
    then show ?thesis by (simp add: lower_def caseless_eq_def)
  next
    case (Cons b q)
    with Cons.prems have b: "lower_char b = b" and q: "lower q = q"
      by (simp_all add: lower_def)
    from Cons.IH [OF q] lower_char_caseless [OF b, of a] show ?thesis
      by (simp add: Cons lower_def caseless_eq_def)
  qed
qed

lemma login_paths_small: "list_all (\<lambda>p. lower p = p) login_paths"
  by code_simp

lemma login_path_caseless:
  "lower path \<in> set login_paths \<longleftrightarrow> (\<exists>p \<in> set login_paths. caseless_eq path p)"
proof -
  have "\<forall>p \<in> set login_paths. lower path = p \<longleftrightarrow> caseless_eq path p"
    using login_paths_small lower_caseless by (auto simp: list_all_iff)
  then show ?thesis by auto
qed

text \<open>
  Claim C5. \<open>classify\<close> is a function of the features, the rate count, the rate limit and
  the behavior score. With \<open>r = rate_count / rate_limit\<close> (0 when the limit is not
  positive) its result is the label of the first rule, in the order HTTP_FLOOD,
  HTTP_FLOOD, SLOWLORIS, CREDENTIAL_STUFFING, API_ABUSE, SCRAPING of
  \<open>classifier_rules\<close>, whose condition holds, and \<open>None\<close> when no condition holds. The
  condition of the fourth rule holds for a path that is one of the six login paths up
  to the case of its letters.
\<close>

theorem C5_classify_first_match:
  "classify f rate_count rate_limit behavior_score =
     first_match (classifier_rules (dict_get (feat_method f) ''GET'') (dict_get (feat_path f) ''/'')
        (dict_get (feat_user_agent f) []) (dict_get (feat_content_length f) 0)
        (if rate_limit > 0 then real_of_int rate_count / real_of_int rate_limit else 0)
        behavior_score)"
proof -
  have m: "dict_get (feat_method f) ''GET'' \<in> set [''POST'', ''PUT'', ''DELETE'']
             \<longleftrightarrow> dict_get (feat_method f) ''GET'' = ''POST''
                \<or> dict_get (feat_method f) ''GET'' = ''PUT''
                \<or> dict_get (feat_method f) ''GET'' = ''DELETE''"
    by auto
  show ?thesis
    unfolding classify_def classifier_rules_def rate_ratio_def Let_def first_match.simps
      login_path_caseless m
    by (rule refl)
qed

text \<open>Forty requests against a limit of one hundred, a \<open>POST\<close> to \<open>/API/Login\<close>: the first
  three rules do not match, and the path is a login path only up to case.\<close>

theorem C5_classify_first_match_witness:
  "classify \<lparr>feat_method = Some ''POST'', feat_path = Some ''/API/Login'',
              feat_user_agent = Some ''Mozilla/5.0'', feat_content_length = Some 100,
              feat_header_count = None, feat_accept_language = None\<rparr> 40 100 0.2
     = Some CREDENTIAL_STUFFING
   \<and> ''/API/Login'' \<notin> set login_paths"
proof -
  have "first_match (classifier_rules ''POST'' ''/API/Login'' ''Mozilla/5.0'' 100
          (real_of_int 40 / real_of_int 100) 0.2) = Some CREDENTIAL_STUFFING"
    by code_simp
  moreover have "''/API/Login'' \<notin> set login_paths"
    by (simp add: login_paths_def)
  ultimately show ?thesis
    using C5_classify_first_match
      [of "\<lparr>feat_method = Some ''POST'', feat_path = Some ''/API/Login'',
            feat_user_agent = Some ''Mozilla/5.0'', feat_content_length = Some 100,
            feat_header_count = None, feat_accept_language = None\<rparr>" 40 100 "0.2"]
    by (simp add: dict_get_def)
qed

subsection \<open>The behavior score\<close>

lemma compute_score_range: "0 \<le> compute_score s \<and> compute_score s \<le> 1"
  by (simp add: compute_score_def)

lemma map_of_dict_set: "map_of (dict_set d k v) k = Some v"
  by (induction d) (auto simp: dict_set_def split: if_splits)

lemma request_count_session_record:
  "request_count (session_record s now path method ua al referer cookie hoh) = request_count s + 1"
  by (simp add: session_record_def Let_def)

text \<open>The session that a call of \<open>record_and_score\<close> starts from: the stored one, after the
  cleanup, or a fresh one.\<close>

lemma record_and_score_session:
  assumes "record_and_score a now ip path method ua al referer cookie hoh = (score, a')"
  shows "get_session a' ip =
           Some (session_record
                   (case get_session (maybe_cleanup a now) ip of Some s \<Rightarrow> s | None \<Rightarrow> new_session)
                   now path method ua al referer cookie hoh)
         \<and> score = compute_score
                     (session_record
                        (case get_session (maybe_cleanup a now) ip of Some s \<Rightarrow> s | None \<Rightarrow> new_session)
                        now path method ua al referer cookie hoh)"
  using assms
  by (auto simp: record_and_score_def get_session_def Let_def map_of_dict_set
           split: option.splits)

text \<open>
  Claim C6. For every analyzer state and every input, the score that \<open>record_and_score\<close>
  returns lies in [0, 1]. The session stored for the client after the call has a request
  count one above the count before the call; when that count is below 3 the score is
  exactly 0, and from 3 on it is the weighted sum of timing regularity (0.30), inverted
  path diversity (0.15), header consistency (0.15), rate (0.20) and browser indicators
  (0.20), clamped to [0, 1].
\<close>

theorem C6_behavior_score:
  assumes "record_and_score a now ip path method ua al referer cookie hoh = (score, a')"
  shows "0 \<le> score \<and> score \<le> 1
       \<and> (\<exists>s. get_session a' ip = Some s
              \<and> request_count s =
                  request_count (case get_session (maybe_cleanup a now) ip of
                                   Some s0 \<Rightarrow> s0 | None \<Rightarrow> new_session) + 1
              \<and> (request_count s < 3 \<longrightarrow> score = 0)
              \<and> (request_count s \<ge> 3 \<longrightarrow>
                    score = min 1 (max 0
                      (timing_regularity s * 0.30 + (1 - path_diversity s) * 0.15
                       + header_consistency s * 0.15 + rate_score s * 0.20
                       + browser_indicators s * 0.20))))"
proof -
  let ?s = "session_record
              (case get_session (maybe_cleanup a now) ip of Some s \<Rightarrow> s | None \<Rightarrow> new_session)
              now path method ua al referer cookie hoh"
  from record_and_score_session [OF assms]
  have g: "get_session a' ip = Some ?s" and sc: "score = compute_score ?s"
    by simp_all
  have r: "0 \<le> score \<and> score \<le> 1"
    unfolding sc by (rule compute_score_range)
  have lo: "request_count ?s < 3 \<longrightarrow> score = 0"
    unfolding sc by (simp add: compute_score_def)
  have hi: "request_count ?s \<ge> 3 \<longrightarrow>
              score = min 1 (max 0
                (timing_regularity ?s * 0.30 + (1 - path_diversity ?s) * 0.15
                 + header_consistency ?s * 0.15 + rate_score ?s * 0.20
                 + browser_indicators ?s * 0.20))"
    unfolding sc by (simp add: compute_score_def composite_def)
  have cnt: "request_count ?s =
               request_count (case get_session (maybe_cleanup a now) ip of
                                Some s0 \<Rightarrow> s0 | None \<Rightarrow> new_session) + 1"
    by (rule request_count_session_record)
  from r g cnt lo hi show ?thesis by blast
qed

lemma example_record_and_score:
  "fst (record_and_score example_analyzer 102 ''10.0.0.1'' ''/'' ''GET'' [] [] None None ''h'')
     = 4 / 25"
  by (simp add: record_and_score_def example_analyzer_def example_session_def maybe_cleanup_def
        Let_def session_record_def deque_append_def truthy_def compute_score_def composite_def
        timing_regularity_def path_diversity_def header_consistency_def rate_score_def
        browser_indicators_def)


text \<open>The third request of the example client: no interval statistics yet, one path out
  of three distinct, no accept-language; the score is \<open>0.15 * 2/3 + 0.20 * 0.3 = 0.16\<close>.\<close>

theorem C6_behavior_score_witness:
  "0 \<le> fst (record_and_score example_analyzer 102 ''10.0.0.1'' ''/'' ''GET'' [] [] None None ''h'')
   \<and> fst (record_and_score example_analyzer 102 ''10.0.0.1'' ''/'' ''GET'' [] [] None None ''h'') \<le> 1
   \<and> fst (record_and_score example_analyzer 102 ''10.0.0.1'' ''/'' ''GET'' [] [] None None ''h'') = 4 / 25
   \<and> (\<exists>s. get_session
             (snd (record_and_score example_analyzer 102 ''10.0.0.1'' ''/'' ''GET'' [] [] None None ''h''))
             ''10.0.0.1'' = Some s
          \<and> request_count s = 3)"
proof -
  define r where
    "r = record_and_score example_analyzer 102 ''10.0.0.1'' ''/'' ''GET'' [] [] None None ''h''"
  have e: "record_and_score example_analyzer 102 ''10.0.0.1'' ''/'' ''GET'' [] [] None None ''h''
             = (fst r, snd r)"
    by (simp add: r_def)
  have c: "request_count (case get_session (maybe_cleanup example_analyzer 102) ''10.0.0.1'' of
                            Some s0 \<Rightarrow> s0 | None \<Rightarrow> new_session) = 2"
    by (simp add: get_session_def maybe_cleanup_def example_analyzer_def example_session_def)
  from C6_behavior_score [OF e] c
  have "0 \<le> fst r \<and> fst r \<le> 1
      \<and> (\<exists>s. get_session (snd r) ''10.0.0.1'' = Some s \<and> request_count s = 3)"
    by auto
  moreover have "fst r = 4 / 25"
    unfolding r_def by (rule example_record_and_score)
  ultimately show ?thesis
    unfolding r_def by simp
qed

subsection \<open>The handler's second behavior score\<close>

lemma handler_behavior_score_after_record:
  assumes "record_and_score a now ip path method ua al referer cookie hoh = (score, a')"
  shows "handler_behavior_score a' ip = score"
proof -
  from record_and_score_session [OF assms] obtain s
    where g: "get_session a' ip = Some s" and sc: "score = compute_score s"
    by blast
  show ?thesis
    by (simp add: handler_behavior_score_def g sc compute_score_def)
qed

text \<open>
  Claim C10. When \<open>score_request\<close> returns for a request, the behavior score that the
  handler computes again in its graduated-mitigation branch, from the session stored for
  the client in the analyzer that \<open>score_request\<close> leaves behind, is the score that
  \<open>record_and_score\<close> returned inside \<open>score_request\<close> for that request; both are 0 when
  the stored session has a request count below 3.
\<close>

theorem C10_handler_behavior_score:
  assumes "score_request lib baseline ml_ready ml_score analyzer now req client_ip
             rate_count rate_limit = Inr (threat, analyzer')"
  shows "handler_behavior_score analyzer' client_ip =
           fst (record_and_score analyzer now client_ip (req_path req) (req_method req)
                  (dict_get (header req ''user-agent'') [])
                  (dict_get (header req ''accept-language'') [])
                  (header req ''referer'') (header req ''cookie'')
                  (compute_header_order_hash lib (req_headers req)))
       \<and> (\<exists>s. get_session analyzer' client_ip = Some s
              \<and> handler_behavior_score analyzer' client_ip = compute_score s
              \<and> (request_count s < 3 \<longrightarrow> handler_behavior_score analyzer' client_ip = 0))"
proof -
  let ?r = "record_and_score analyzer now client_ip (req_path req) (req_method req)
              (dict_get (header req ''user-agent'') [])
              (dict_get (header req ''accept-language'') [])
              (header req ''referer'') (header req ''cookie'')
              (compute_header_order_hash lib (req_headers req))"
  have a': "analyzer' = snd ?r"
    using assms
    by (auto simp: score_request_def extract_features_def Let_def dict_get_def
             split: option.splits prod.splits)
  have e: "?r = (fst ?r, analyzer')"
    by (simp add: a')
  have h: "handler_behavior_score analyzer' client_ip = fst ?r"
    by (rule handler_behavior_score_after_record [OF e])
  from record_and_score_session [OF e] obtain s
    where g: "get_session analyzer' client_ip = Some s" and sc: "fst ?r = compute_score s"
    by blast
  have z: "request_count s < 3 \<longrightarrow> handler_behavior_score analyzer' client_ip = 0"
    by (simp add: h sc compute_score_def)
  from h g sc z show ?thesis by auto
qed

lemma example_score_request:
  "score_request example_library example_baseline False 0 example_analyzer 102 example_request
     ''10.0.0.1'' 3 100
   = Inr (0, snd (record_and_score example_analyzer 102 ''10.0.0.1'' ''/'' ''GET'' [] [] None None
                    (compute_header_order_hash example_library [(''host'', ''example.org'')])))"
  by (simp add: score_request_def extract_features_def example_request_def header_def
        dict_get_def scorer_score_def example_baseline_def float_of_int_def Let_def
        split: prod.splits)

text \<open>The third request of the example client, scored by the engine and again by the
  handler: 0.16 both times.\<close>

theorem C10_handler_behavior_score_witness:
  "handler_behavior_score
     (snd (record_and_score example_analyzer 102 ''10.0.0.1'' ''/'' ''GET'' [] [] None None
             (compute_header_order_hash example_library [(''host'', ''example.org'')])))
     ''10.0.0.1''
   = fst (record_and_score example_analyzer 102 ''10.0.0.1'' ''/'' ''GET'' [] [] None None
            (compute_header_order_hash example_library [(''host'', ''example.org'')]))"
  using C10_handler_behavior_score [OF example_score_request]
  by (simp add: example_request_def header_def dict_get_def)

subsection \<open>Fail-open without the store\<close>

text \<open>
  Claim C8. While \<open>redis_manager.client\<close> is \<open>None\<close>, \<open>allow\<close> returns \<open>True\<close>,
  \<open>allow_with_count\<close> and \<open>check_rule_limit\<close> return \<open>(True, 0)\<close>, \<open>get_ip_count\<close> returns 0 and
  \<open>is_blocked\<close> returns \<open>False\<close>, whatever the client, the limits and the time; the client
  stays \<open>None\<close>.
\<close>

theorem C8_fail_open:
  "allow cfg None client_ip now rnd = (True, None)
   \<and> allow_with_count cfg None client_ip now rnd = ((True, 0), None)
   \<and> check_rule_limit None client_ip name limit window_sec now rnd = ((True, 0), None)
   \<and> get_ip_count None client_ip now = 0
   \<and> is_blocked None client_ip now = False"
  by (simp add: allow_def allow_with_count_def check_rule_limit_def get_ip_count_def
        is_blocked_def)


subsection \<open>The sliding window\<close>

lemma fst_zadd_map:
  "fst ` set (map (\<lambda>(m', score'). if m' = m then (m', score) else (m', score')) z) = fst ` set z"
  by (induction z) auto

lemma zadd_member: "m \<in> fst ` set (zsets (zadd r key m score) key)"
  using fst_zadd_map [of m score "zsets r key"] by (simp add: zadd_def)

lemma zadd_new:
  "m \<notin> fst ` set (zsets r key) \<Longrightarrow> zsets (zadd r key m score) key = zsets r key @ [(m, score)]"
  by (simp add: zadd_def)

lemma zadd_length: "length (zsets (zadd r key m score) key) \<le> Suc (length (zsets r key))"
  by (simp add: zadd_def)

lemma zremrangebyscore_keeps:
  "\<forall>(m, s) \<in> set (zsets r key). mx < s \<Longrightarrow> zsets (zremrangebyscore r key mx) key = zsets r key"
  by (auto simp: zremrangebyscore_def intro!: filter_True)

lemma zremrangebyscore_length:
  "length (zsets (zremrangebyscore r key mx) key) \<le> length (zsets r key)"
  by (simp add: zremrangebyscore_def)

lemma purge_length: "length (zsets (purge r now key) key) \<le> length (zsets r key)"
  by (simp add: purge_def)

lemma purge_keeps:
  "expired r now key \<longrightarrow> zsets r key = [] \<Longrightarrow> zsets (purge r now key) key = zsets r key"
  by (simp add: purge_def)

lemma zsets_expire: "zsets (expire r key seconds now) = zsets r"
  by (simp add: expire_def)

lemma expires_expire:
  "zsets r key \<noteq> [] \<Longrightarrow> expires (expire r key seconds now) key = Some (now + seconds)"
  by (simp add: expire_def exists_key_def)

lemma window_pipeline_count:
  "fst (window_pipeline r key now ws m ttl)
     = length (zsets (snd (window_pipeline r key now ws m ttl)) key)
   \<and> m \<in> fst ` set (zsets (snd (window_pipeline r key now ws m ttl)) key)"
  by (simp add: window_pipeline_def Let_def zcard_def zsets_expire zadd_member)

lemma window_pipeline_frame:
  assumes "key' \<noteq> key"
  shows "zsets (snd (window_pipeline r key now ws m ttl)) key' = zsets r key'"
    and "expires (snd (window_pipeline r key now ws m ttl)) key' = expires r key'"
  using assms
  by (auto simp: window_pipeline_def Let_def expire_def zadd_def zremrangebyscore_def purge_def)

lemma window_pipeline_bound:
  "fst (window_pipeline r key now ws m ttl) \<le> Suc (length (zsets r key))"
proof -
  have "length (zsets (zremrangebyscore (purge r now key) key ws) key) \<le> length (zsets r key)"
    by (rule order_trans [OF zremrangebyscore_length purge_length])
  then have "Suc (length (zsets (zremrangebyscore (purge r now key) key ws) key))
               \<le> Suc (length (zsets r key))"
    by simp
  with zadd_length [of "zremrangebyscore (purge r now key) key ws" key m now]
  show ?thesis
    by (simp add: window_pipeline_def Let_def zcard_def)
qed

lemma window_pipeline_fresh:
  assumes "\<forall>(m', s) \<in> set (zsets r key). ws < s \<and> m' \<noteq> m"
    and "expired r now key \<longrightarrow> zsets r key = []"
  shows "fst (window_pipeline r key now ws m ttl) = Suc (length (zsets r key))"
    and "zsets (snd (window_pipeline r key now ws m ttl)) key = zsets r key @ [(m, now)]"
    and "expires (snd (window_pipeline r key now ws m ttl)) key = Some (now + real_of_int ttl)"
proof -
  let ?r0 = "purge r now key"
  let ?r1 = "zremrangebyscore ?r0 key ws"
  let ?r2 = "zadd ?r1 key m now"
  have z0: "zsets ?r0 key = zsets r key"
    by (rule purge_keeps [OF assms(2)])
  have "\<forall>(m', s) \<in> set (zsets ?r0 key). ws < s"
    using assms(1) unfolding z0 by auto
  then have z1: "zsets ?r1 key = zsets r key"
    using zremrangebyscore_keeps [of ?r0 key ws] z0 by simp
  have "m \<notin> fst ` set (zsets ?r1 key)"
    using assms(1) unfolding z1 by force
  then have z2: "zsets ?r2 key = zsets r key @ [(m, now)]"
    using zadd_new [of m ?r1 key now] z1 by simp
  show "fst (window_pipeline r key now ws m ttl) = Suc (length (zsets r key))"
    by (simp add: window_pipeline_def Let_def zcard_def z2)
  show "zsets (snd (window_pipeline r key now ws m ttl)) key = zsets r key @ [(m, now)]"
    by (simp add: window_pipeline_def Let_def zsets_expire z2)
  have "zsets ?r2 key \<noteq> []"
    by (simp add: z2)
  then show "expires (snd (window_pipeline r key now ws m ttl)) key = Some (now + real_of_int ttl)"
    by (simp add: window_pipeline_def Let_def expires_expire)
qed


lemma window_pipeline_stale:
  assumes "expired r now key \<or> (\<forall>(m', s) \<in> set (zsets r key). s \<le> ws)"
  shows "fst (window_pipeline r key now ws m ttl) = Suc 0"
    and "zsets (snd (window_pipeline r key now ws m ttl)) key = [(m, now)]"
    and "expires (snd (window_pipeline r key now ws m ttl)) key = Some (now + real_of_int ttl)"
proof -
  let ?r0 = "purge r now key"
  let ?r1 = "zremrangebyscore ?r0 key ws"
  let ?r2 = "zadd ?r1 key m now"
  have "\<forall>(m', s) \<in> set (zsets ?r0 key). s \<le> ws"
    using assms by (auto simp: purge_def)
  then have "filter (\<lambda>(m', s). \<not> s \<le> ws) (zsets ?r0 key) = []"
    by (auto simp: filter_empty_conv)
  then have z1: "zsets ?r1 key = []"
    by (simp add: zremrangebyscore_def)
  have z2: "zsets ?r2 key = [(m, now)]"
    using zadd_new [of m ?r1 key now] z1 by simp
  show "fst (window_pipeline r key now ws m ttl) = Suc 0"
    by (simp add: window_pipeline_def Let_def zcard_def z2)
  show "zsets (snd (window_pipeline r key now ws m ttl)) key = [(m, now)]"
    by (simp add: window_pipeline_def Let_def zsets_expire z2)
  have "zsets ?r2 key \<noteq> []"
    by (simp add: z2)
  then show "expires (snd (window_pipeline r key now ws m ttl)) key = Some (now + real_of_int ttl)"
    by (simp add: window_pipeline_def Let_def expires_expire)
qed

text \<open>One call of \<open>allow\<close> while the subnet and global windows have room: the result is that
  of the per-IP check, and the two other checks leave the client's own window alone.\<close>

lemma allow_eval:
  assumes p1: "p1 = window_pipeline r (''rl:ip:'' @ ip) now (now - real_of_int WINDOW_SEC)
                      (now, rnd) (WINDOW_SEC + 10)"
    and sub: "int (length (zsets r (''rl:sub:'' @ ip_to_subnet ip))) + int (Suc n)
                \<le> rate_limit_per_subnet cfg"
    and gl: "int (length (zsets r ''rl:global'')) + int (Suc n) \<le> rate_limit_global cfg"
  shows "\<exists>r'. allow cfg (Some r) ip now rnd = (int (fst p1) \<le> rate_limit_per_ip cfg, Some r')
              \<and> zsets r' (''rl:ip:'' @ ip) = zsets (snd p1) (''rl:ip:'' @ ip)
              \<and> expires r' (''rl:ip:'' @ ip) = expires (snd p1) (''rl:ip:'' @ ip)
              \<and> int (length (zsets r' (''rl:sub:'' @ ip_to_subnet ip))) + int n
                    \<le> rate_limit_per_subnet cfg
              \<and> int (length (zsets r' ''rl:global'')) + int n \<le> rate_limit_global cfg"
proof -
  define ws where "ws = now - real_of_int WINDOW_SEC"
  define ttl where "ttl = WINDOW_SEC + 10"
  define ipk where "ipk = ''rl:ip:'' @ ip"
  define subk where "subk = ''rl:sub:'' @ ip_to_subnet ip"
  define glk where "glk = ''rl:global''"
  define p2 where "p2 = window_pipeline (snd p1) subk now ws (now, rnd) ttl"
  define p3 where "p3 = window_pipeline (snd p2) glk now ws (now, rnd) ttl"
  have p1': "p1 = window_pipeline r ipk now ws (now, rnd) ttl"
    by (simp add: p1 ipk_def ws_def ttl_def)
  have ne: "subk \<noteq> ipk" "glk \<noteq> ipk" "glk \<noteq> subk" "ipk \<noteq> subk" "ipk \<noteq> glk" "subk \<noteq> glk"
    by (simp_all add: ipk_def subk_def glk_def)
  have s1: "zsets (snd p1) subk = zsets r subk" and g1: "zsets (snd p1) glk = zsets r glk"
    unfolding p1' by (simp_all add: window_pipeline_frame ne)
  have c2: "fst p2 \<le> Suc (length (zsets r subk))"
    using window_pipeline_bound [of "snd p1" subk now ws "(now, rnd)" ttl] s1
    by (simp add: p2_def)
  have z2: "zsets (snd p2) ipk = zsets (snd p1) ipk"
    and e2: "expires (snd p2) ipk = expires (snd p1) ipk"
    and g2: "zsets (snd p2) glk = zsets (snd p1) glk"
    unfolding p2_def by (simp_all add: window_pipeline_frame ne)
  have s2: "length (zsets (snd p2) subk) = fst p2"
    unfolding p2_def using window_pipeline_count [of "snd p1" subk now ws "(now, rnd)" ttl] by simp
  have c3: "fst p3 \<le> Suc (length (zsets r glk))"
    using window_pipeline_bound [of "snd p2" glk now ws "(now, rnd)" ttl] g2 g1
    by (simp add: p3_def)
  have z3: "zsets (snd p3) ipk = zsets (snd p2) ipk"
    and e3: "expires (snd p3) ipk = expires (snd p2) ipk"
    and s3: "zsets (snd p3) subk = zsets (snd p2) subk"
    unfolding p3_def by (simp_all add: window_pipeline_frame ne)
  have g3: "length (zsets (snd p3) glk) = fst p3"
    unfolding p3_def using window_pipeline_count [of "snd p2" glk now ws "(now, rnd)" ttl] by simp
  have sub': "int (length (zsets r subk)) + int (Suc n) \<le> rate_limit_per_subnet cfg"
    and gl': "int (length (zsets r glk)) + int (Suc n) \<le> rate_limit_global cfg"
    using sub gl by (simp_all add: subk_def glk_def)
  have ok2: "int (fst p2) \<le> rate_limit_per_subnet cfg"
    using c2 sub' by simp
  have ok3: "int (fst p3) \<le> rate_limit_global cfg"
    using c3 gl' by simp
  have eval: "allow cfg (Some r) ip now rnd =
                (if \<not> int (fst p1) \<le> rate_limit_per_ip cfg then (False, Some (snd p1))
                 else if \<not> int (fst p2) \<le> rate_limit_per_subnet cfg then (False, Some (snd p2))
                 else if \<not> int (fst p3) \<le> rate_limit_global cfg then (False, Some (snd p3))
                 else (True, Some (snd p3)))"
    unfolding allow_def check_key_def Let_def p1 p2_def p3_def ws_def ttl_def ipk_def
      subk_def glk_def
    by (simp add: case_prod_beta)
  show ?thesis
  proof (cases "int (fst p1) \<le> rate_limit_per_ip cfg")
    case False
    then have "allow cfg (Some r) ip now rnd = (int (fst p1) \<le> rate_limit_per_ip cfg, Some (snd p1))"
      by (simp add: eval)
    moreover have "int (length (zsets (snd p1) subk)) + int n \<le> rate_limit_per_subnet cfg"
      and "int (length (zsets (snd p1) glk)) + int n \<le> rate_limit_global cfg"
      using sub' gl' s1 g1 by simp_all
    ultimately show ?thesis
      unfolding ipk_def [symmetric] subk_def [symmetric] glk_def [symmetric] by blast
  next
    case True
    then have "allow cfg (Some r) ip now rnd = (int (fst p1) \<le> rate_limit_per_ip cfg, Some (snd p3))"
      using ok2 ok3 by (simp add: eval)
    moreover have "zsets (snd p3) ipk = zsets (snd p1) ipk"
      and "expires (snd p3) ipk = expires (snd p1) ipk"
      by (simp_all add: z2 z3 e2 e3)
    moreover have "int (length (zsets (snd p3) subk)) + int n \<le> rate_limit_per_subnet cfg"
      and "int (length (zsets (snd p3) glk)) + int n \<le> rate_limit_global cfg"
      using sub' gl' s2 s3 g3 c2 c3 by simp_all
    ultimately show ?thesis
      unfolding ipk_def [symmetric] subk_def [symmetric] glk_def [symmetric] by blast
  qed
qed

lemma expiry_after_check:
  assumes "expires r' key = Some (now + 70)" and "\<forall>c \<in> set rest. fst c - 60 < now"
  shows "\<forall>c \<in> set rest. \<not> expired r' (fst c) key"
  using assms by (auto simp: expired_def)

lemma allow_step:
  assumes inv: "window_inv cfg ip r seen ((now, rnd) # rest)"
    and dist: "(now, rnd) \<notin> set rest"
    and win: "\<forall>c \<in> set rest. fst c - 60 < now"
  shows "\<exists>r'. allow cfg (Some r) ip now rnd
                = (int (Suc (length seen)) \<le> rate_limit_per_ip cfg, Some r')
              \<and> window_inv cfg ip r' (seen @ [(now, rnd)]) rest"
proof -
  define ipk where "ipk = ''rl:ip:'' @ ip"
  define p1 where "p1 = window_pipeline r ipk now (now - real_of_int WINDOW_SEC)
                          (now, rnd) (WINDOW_SEC + 10)"
  from inv have z: "zsets r ipk = map (\<lambda>c. (c, fst c)) seen"
    and old: "\<forall>d \<in> set seen. \<forall>c \<in> set ((now, rnd) # rest). fst c - 60 < fst d \<and> d \<noteq> c"
    and ex: "\<forall>c \<in> set ((now, rnd) # rest). expired r (fst c) ipk \<longrightarrow> seen = []"
    and sub: "int (length (zsets r (''rl:sub:'' @ ip_to_subnet ip))) + int (Suc (length rest))
                \<le> rate_limit_per_subnet cfg"
    and gl: "int (length (zsets r ''rl:global'')) + int (Suc (length rest))
                \<le> rate_limit_global cfg"
    by (simp_all add: window_inv_def ipk_def)
  have fresh: "\<forall>(m', s) \<in> set (zsets r ipk).
                 now - real_of_int WINDOW_SEC < s \<and> m' \<noteq> (now, rnd)"
    using old unfolding z by (auto simp: WINDOW_SEC_def)
  have live: "expired r now ipk \<longrightarrow> zsets r ipk = []"
    using ex z by simp
  note f = window_pipeline_fresh [OF fresh live, of "WINDOW_SEC + 10", folded p1_def]
  have c1: "fst p1 = Suc (length seen)"
    using f(1) z by simp
  have z1: "zsets (snd p1) ipk = map (\<lambda>c. (c, fst c)) (seen @ [(now, rnd)])"
    using f(2) z by simp
  have e1: "expires (snd p1) ipk = Some (now + 70)"
    using f(3) by (simp add: WINDOW_SEC_def)
  from allow_eval [OF p1_def [unfolded ipk_def] sub gl] obtain r'
    where a: "allow cfg (Some r) ip now rnd = (int (fst p1) \<le> rate_limit_per_ip cfg, Some r')"
      and z': "zsets r' ipk = zsets (snd p1) ipk"
      and e': "expires r' ipk = expires (snd p1) ipk"
      and sub': "int (length (zsets r' (''rl:sub:'' @ ip_to_subnet ip))) + int (length rest)
                   \<le> rate_limit_per_subnet cfg"
      and gl': "int (length (zsets r' ''rl:global'')) + int (length rest)
                   \<le> rate_limit_global cfg"
    unfolding ipk_def by blast
  have n: "\<forall>d \<in> set (seen @ [(now, rnd)]). \<forall>c \<in> set rest. fst c - 60 < fst d \<and> d \<noteq> c"
    using old win dist by auto
  have "expires r' ipk = Some (now + 70)"
    by (simp add: e' e1)
  from expiry_after_check [OF this win]
  have x: "\<forall>c \<in> set rest. expired r' (fst c) ipk \<longrightarrow> seen @ [(now, rnd)] = []"
    by blast
  have "window_inv cfg ip r' (seen @ [(now, rnd)]) rest"
    unfolding window_inv_def ipk_def [symmetric]
    using z' z1 n x sub' gl' by simp
  with a c1 show ?thesis by auto
qed

text \<open>The first call of a run finds in the client's window only members that have left
  it, or a key that has expired.\<close>

lemma allow_first:
  assumes stale: "\<forall>(m, s) \<in> set (zsets r (''rl:ip:'' @ ip)). s \<le> now - 60"
    and win: "\<forall>c \<in> set rest. fst c - 60 < now"
    and dist: "(now, rnd) \<notin> set rest"
    and sub: "int (length (zsets r (''rl:sub:'' @ ip_to_subnet ip))) + int (Suc (length rest))
                \<le> rate_limit_per_subnet cfg"
    and gl: "int (length (zsets r ''rl:global'')) + int (Suc (length rest))
                \<le> rate_limit_global cfg"
  shows "\<exists>r'. allow cfg (Some r) ip now rnd = (1 \<le> rate_limit_per_ip cfg, Some r')
              \<and> window_inv cfg ip r' [(now, rnd)] rest"
proof -
  define ipk where "ipk = ''rl:ip:'' @ ip"
  define p1 where "p1 = window_pipeline r ipk now (now - real_of_int WINDOW_SEC)
                          (now, rnd) (WINDOW_SEC + 10)"
  have st: "expired r now ipk
              \<or> (\<forall>(m', s) \<in> set (zsets r ipk). s \<le> now - real_of_int WINDOW_SEC)"
    using stale by (simp add: ipk_def WINDOW_SEC_def)
  note f = window_pipeline_stale [OF st, of "(now, rnd)" "WINDOW_SEC + 10", folded p1_def]
  have e1: "expires (snd p1) ipk = Some (now + 70)"
    using f(3) by (simp add: WINDOW_SEC_def)
  from allow_eval [OF p1_def [unfolded ipk_def] sub gl] obtain r'
    where a: "allow cfg (Some r) ip now rnd = (int (fst p1) \<le> rate_limit_per_ip cfg, Some r')"
      and z': "zsets r' ipk = zsets (snd p1) ipk"
      and e': "expires r' ipk = expires (snd p1) ipk"
      and sub': "int (length (zsets r' (''rl:sub:'' @ ip_to_subnet ip))) + int (length rest)
                   \<le> rate_limit_per_subnet cfg"
      and gl': "int (length (zsets r' ''rl:global'')) + int (length rest)
                   \<le> rate_limit_global cfg"
    unfolding ipk_def by blast
  have n: "\<forall>d \<in> set [(now, rnd)]. \<forall>c \<in> set rest. fst c - 60 < fst d \<and> d \<noteq> c"
    using win dist by auto
  have "expires r' ipk = Some (now + 70)"
    by (simp add: e' e1)
  from expiry_after_check [OF this win]
  have x: "\<forall>c \<in> set rest. expired r' (fst c) ipk \<longrightarrow> [(now, rnd)] = []"
    by blast
  have "window_inv cfg ip r' [(now, rnd)] rest"
    unfolding window_inv_def ipk_def [symmetric]
    using z' f(2) n x sub' gl' by simp
  with a f(1) show ?thesis by auto
qed

lemma allow_run_results:
  assumes "window_inv cfg ip r seen calls"
    and "distinct calls"
    and "\<forall>c \<in> set calls. \<forall>c' \<in> set calls. fst c' - 60 < fst c"
  shows "\<exists>r'. allow_run cfg (Some r) ip calls
                = (map (\<lambda>i. int (length seen + i + 1) \<le> rate_limit_per_ip cfg)
                     [0..<length calls], Some r')
              \<and> zsets r' (''rl:ip:'' @ ip) = map (\<lambda>c. (c, fst c)) (seen @ calls)"
  using assms
proof (induction calls arbitrary: r seen)
  case Nil
  then show ?case by (simp add: window_inv_def)
next
  case (Cons c rest)
  obtain now rnd where c: "c = (now, rnd)" by (cases c)
  from Cons.prems(2) have d: "(now, rnd) \<notin> set rest" and d': "distinct rest"
    by (simp_all add: c)
  from Cons.prems(3) have w: "\<forall>c \<in> set rest. fst c - 60 < now"
    and w': "\<forall>c \<in> set rest. \<forall>c' \<in> set rest. fst c' - 60 < fst c"
    by (simp_all add: c)
  from allow_step [OF Cons.prems(1) [unfolded c] d w] obtain r1
    where a: "allow cfg (Some r) ip now rnd
                = (int (Suc (length seen)) \<le> rate_limit_per_ip cfg, Some r1)"
      and i: "window_inv cfg ip r1 (seen @ [(now, rnd)]) rest"
    by blast
  from Cons.IH [OF i d' w'] obtain r'
    where run: "allow_run cfg (Some r1) ip rest
                  = (map (\<lambda>i. int (length (seen @ [(now, rnd)]) + i + 1) \<le> rate_limit_per_ip cfg)
                       [0..<length rest], Some r')"
      and z: "zsets r' (''rl:ip:'' @ ip) = map (\<lambda>c. (c, fst c)) ((seen @ [(now, rnd)]) @ rest)"
    by blast
  have "allow_run cfg (Some r) ip (c # rest)
          = (map (\<lambda>i. int (length seen + i + 1) \<le> rate_limit_per_ip cfg)
               [0..<length (c # rest)], Some r')"
    by (simp add: c a run map_upt_Suc del: upt_Suc)
  with z show ?case by (auto simp: c)
qed

lemma count_under_limit:
  "length (filter id (map (\<lambda>i. int (i + 1) \<le> L) [0..<n])) = nat (min (int n) L)"
  by (induction n) auto

text \<open>
  Claim C1. A single check returns as count the cardinality of the key after its own
  member has been added, and allows iff that count is at most the limit. Let \<open>allow\<close> be
  called N times for one client, all times less than 60 seconds apart and the members
  pairwise different, on a server where whatever the client's key holds from before has
  a score at least 60 seconds older than every call, and where the subnet and global
  limits leave room for N more members. Then call number \<open>i\<close> (from 1) is allowed iff
  \<open>i \<le> L\<close> for the per-IP limit \<open>L\<close>, so that \<open>min(N, L)\<close> calls are allowed (none for a
  negative \<open>L\<close>); the rejected calls have added their members too: after the first call the
  window holds the members of the calls, and nothing else.
\<close>

theorem C1_allow_min:
  assumes "\<forall>(m, s) \<in> set (zsets r (''rl:ip:'' @ ip)). \<forall>c \<in> set calls. s \<le> fst c - 60"
    and "distinct calls"
    and "\<forall>c \<in> set calls. \<forall>c' \<in> set calls. fst c' - 60 < fst c"
    and "int (length (zsets r (''rl:sub:'' @ ip_to_subnet ip))) + int (length calls)
           \<le> rate_limit_per_subnet cfg"
    and "int (length (zsets r ''rl:global'')) + int (length calls) \<le> rate_limit_global cfg"
  shows "check_key (Some r0) key now ws m limit
           = (int (fst (window_pipeline r0 key now ws m (WINDOW_SEC + 10))) \<le> limit,
              Some (snd (window_pipeline r0 key now ws m (WINDOW_SEC + 10))))
       \<and> fst (window_pipeline r0 key now ws m (WINDOW_SEC + 10))
           = length (zsets (snd (window_pipeline r0 key now ws m (WINDOW_SEC + 10))) key)
       \<and> m \<in> fst ` set (zsets (snd (window_pipeline r0 key now ws m (WINDOW_SEC + 10))) key)
       \<and> fst (allow_run cfg (Some r) ip calls)
           = map (\<lambda>i. int (i + 1) \<le> rate_limit_per_ip cfg) [0..<length calls]
       \<and> length (filter id (fst (allow_run cfg (Some r) ip calls)))
           = nat (min (int (length calls)) (rate_limit_per_ip cfg))
       \<and> (\<exists>r'. snd (allow_run cfg (Some r) ip calls) = Some r'
              \<and> (calls \<noteq> [] \<longrightarrow>
                    zsets r' (''rl:ip:'' @ ip) = map (\<lambda>c. (c, fst c)) calls))"
proof -
  have run: "\<exists>r'. allow_run cfg (Some r) ip calls
                    = (map (\<lambda>i. int (i + 1) \<le> rate_limit_per_ip cfg) [0..<length calls], Some r')
                 \<and> (calls \<noteq> [] \<longrightarrow> zsets r' (''rl:ip:'' @ ip) = map (\<lambda>c. (c, fst c)) calls)"
  proof (cases calls)
    case Nil
    then show ?thesis by simp
  next
    case (Cons c rest)
    obtain t rnd where c: "c = (t, rnd)" by (cases c)
    from assms(1) have stale: "\<forall>(m, s) \<in> set (zsets r (''rl:ip:'' @ ip)). s \<le> t - 60"
      by (auto simp: Cons c)
    from assms(2) have d: "(t, rnd) \<notin> set rest" and d': "distinct rest"
      by (simp_all add: Cons c)
    from assms(3) have w: "\<forall>c \<in> set rest. fst c - 60 < t"
      and w': "\<forall>c \<in> set rest. \<forall>c' \<in> set rest. fst c' - 60 < fst c"
      by (simp_all add: Cons c)
    from assms(4,5)
    have sub: "int (length (zsets r (''rl:sub:'' @ ip_to_subnet ip))) + int (Suc (length rest))
                \<le> rate_limit_per_subnet cfg"
      and gl: "int (length (zsets r ''rl:global'')) + int (Suc (length rest))
                \<le> rate_limit_global cfg"
      by (simp_all add: Cons)
    from allow_first [OF stale w d sub gl] obtain r1
      where a: "allow cfg (Some r) ip t rnd = (1 \<le> rate_limit_per_ip cfg, Some r1)"
        and i: "window_inv cfg ip r1 [(t, rnd)] rest"
      by blast
    from allow_run_results [OF i d' w'] obtain r'
      where rest: "allow_run cfg (Some r1) ip rest
                     = (map (\<lambda>i. int (length [(t, rnd)] + i + 1) \<le> rate_limit_per_ip cfg)
                          [0..<length rest], Some r')"
        and z: "zsets r' (''rl:ip:'' @ ip) = map (\<lambda>c. (c, fst c)) ([(t, rnd)] @ rest)"
      by blast
    have "allow_run cfg (Some r) ip calls
            = (map (\<lambda>i. int (i + 1) \<le> rate_limit_per_ip cfg) [0..<length calls], Some r')"
      by (simp add: Cons c a rest map_upt_Suc del: upt_Suc)
    with z show ?thesis by (auto simp: Cons c)
  qed
  then obtain r'
    where run': "allow_run cfg (Some r) ip calls
                  = (map (\<lambda>i. int (i + 1) \<le> rate_limit_per_ip cfg) [0..<length calls], Some r')"
      and z: "calls \<noteq> [] \<longrightarrow> zsets r' (''rl:ip:'' @ ip) = map (\<lambda>c. (c, fst c)) calls"
    by blast
  have one: "check_key (Some r0) key now ws m limit
               = (int (fst (window_pipeline r0 key now ws m (WINDOW_SEC + 10))) \<le> limit,
                  Some (snd (window_pipeline r0 key now ws m (WINDOW_SEC + 10))))"
    by (simp add: check_key_def case_prod_beta)
  note cnt = window_pipeline_count [of r0 key now ws m "WINDOW_SEC + 10"]
  have n: "length (filter id (fst (allow_run cfg (Some r) ip calls)))
             = nat (min (int (length calls)) (rate_limit_per_ip cfg))"
    unfolding run' fst_conv by (rule count_under_limit)
  from one cnt run' z n show ?thesis by simp
qed

text \<open>Three calls within two seconds against a per-IP limit of 2, on the server with the
  stale member: the first call trims that member, the first two calls are allowed, the
  third is not, and the window holds the three members of the calls.\<close>

theorem C1_allow_min_witness:
  "fst (allow_run (default_settings\<lparr>rate_limit_per_ip := 2\<rparr>) (Some stale_window) ''10.0.0.1''
          [(100, ''a1b2c3d4''), (101, ''a1b2c3d4''), (102, ''00000000'')])
     = [True, True, False]
   \<and> length (filter id
        (fst (allow_run (default_settings\<lparr>rate_limit_per_ip := 2\<rparr>) (Some stale_window) ''10.0.0.1''
                [(100, ''a1b2c3d4''), (101, ''a1b2c3d4''), (102, ''00000000'')]))) = 2
   \<and> (\<exists>r'. snd (allow_run (default_settings\<lparr>rate_limit_per_ip := 2\<rparr>) (Some stale_window)
                   ''10.0.0.1'' [(100, ''a1b2c3d4''), (101, ''a1b2c3d4''), (102, ''00000000'')])
               = Some r'
          \<and> zsets r' ''rl:ip:10.0.0.1''
               = [((100, ''a1b2c3d4''), 100), ((101, ''a1b2c3d4''), 101),
                  ((102, ''00000000''), 102)])
   \<and> zsets stale_window ''rl:ip:10.0.0.1'' = [((35, ''0000aaaa''), 35)]
   \<and> \<not> expired stale_window 100 ''rl:ip:10.0.0.1''"
proof -
  have h1: "\<forall>(m, s) \<in> set (zsets stale_window (''rl:ip:'' @ ''10.0.0.1'')).
            \<forall>c \<in> set [(100::real, ''a1b2c3d4''), (101, ''a1b2c3d4''), (102, ''00000000'')].
              s \<le> fst c - 60"
    by (simp add: stale_window_def empty_redis_def)
  have h2: "distinct [(100::real, ''a1b2c3d4''), (101, ''a1b2c3d4''), (102, ''00000000'')]"
    by simp
  have h3: "\<forall>c \<in> set [(100::real, ''a1b2c3d4''), (101, ''a1b2c3d4''), (102, ''00000000'')].
            \<forall>c' \<in> set [(100::real, ''a1b2c3d4''), (101, ''a1b2c3d4''), (102, ''00000000'')].
              fst c' - 60 < fst c"
    by simp
  have h4: "int (length (zsets stale_window (''rl:sub:'' @ ip_to_subnet ''10.0.0.1'')))
              + int (length [(100::real, ''a1b2c3d4''), (101, ''a1b2c3d4''), (102, ''00000000'')])
            \<le> rate_limit_per_subnet (default_settings\<lparr>rate_limit_per_ip := 2\<rparr>)"
    by (simp add: stale_window_def empty_redis_def default_settings_def)
  have h5: "int (length (zsets stale_window ''rl:global''))
              + int (length [(100::real, ''a1b2c3d4''), (101, ''a1b2c3d4''), (102, ''00000000'')])
            \<le> rate_limit_global (default_settings\<lparr>rate_limit_per_ip := 2\<rparr>)"
    by (simp add: stale_window_def empty_redis_def default_settings_def)
  have s: "zsets stale_window ''rl:ip:10.0.0.1'' = [((35, ''0000aaaa''), 35)]
           \<and> \<not> expired stale_window 100 ''rl:ip:10.0.0.1''"
    by (simp add: stale_window_def empty_redis_def expired_def)
  from C1_allow_min [OF h1 h2 h3 h4 h5] s
  show ?thesis
    by (simp add: default_settings_def upt_rec)
qed

subsection \<open>Splitting and joining\<close>

lemma split_on_not_Nil: "split_on c s \<noteq> []"
  by (induction s) (auto split: list.splits)

lemma split_on_no_sep: "p \<in> set (split_on c s) \<Longrightarrow> c \<notin> set p"
  by (induction s arbitrary: p) (auto split: list.splits if_splits)

lemma split_on_plain: "c \<notin> set p \<Longrightarrow> split_on c p = [p]"
  by (induction p) auto

lemma split_on_append: "c \<notin> set p \<Longrightarrow> split_on c (p @ c # s) = p # split_on c s"
  by (induction p) auto

lemma split_on_join:
  "ps \<noteq> [] \<Longrightarrow> \<forall>p \<in> set ps. c \<notin> set p \<Longrightarrow> split_on c (join [c] ps) = ps"
  by (induction "[c]" ps rule: join.induct) (auto simp: split_on_plain split_on_append)

lemma join_split_on: "join [c] (split_on c s) = s"
proof (induction s)
  case Nil
  then show ?case by simp
next
  case (Cons x s)
  obtain p ps where sp: "split_on c s = p # ps"
    using split_on_not_Nil [of c s] by (cases "split_on c s") auto
  with Cons show ?case
    by (cases ps) auto
qed

lemma split_on_iff:
  "split_on c s = ps \<longleftrightarrow> ps \<noteq> [] \<and> (\<forall>p \<in> set ps. c \<notin> set p) \<and> join [c] ps = s"
  using split_on_not_Nil split_on_no_sep split_on_join join_split_on by metis


subsection \<open>Integer literals\<close>

lemma digit_not_special:
  assumes "is_digit c"
  shows "\<not> int_space c" and "c \<noteq> CHR ''-''" and "c \<noteq> CHR ''+''" and "c \<noteq> CHR ''_''"
    and "c \<noteq> CHR ''/''" and "is_ascii c"
  using assms by (auto simp: is_digit_def int_space_def is_ascii_def Let_def)

lemma trim_digits:
  assumes "list_all is_digit ds"
  shows "rev (dropWhile int_space (rev (dropWhile int_space ds))) = ds"
proof (cases ds)
  case Nil
  then show ?thesis by simp
next
  case (Cons c cs)
  with assms have c: "\<not> int_space c"
    by (simp add: digit_not_special)
  have "ds \<noteq> []" using Cons by simp
  moreover have "is_digit (last ds)"
    using assms \<open>ds \<noteq> []\<close> by (simp add: list_all_iff)
  ultimately have l: "\<not> int_space (hd (rev ds))"
    by (simp add: hd_rev digit_not_special)
  have "dropWhile int_space ds = ds"
    using c Cons by simp
  moreover have "dropWhile int_space (rev ds) = rev ds"
    using l \<open>ds \<noteq> []\<close> by (cases "rev ds") auto
  ultimately show ?thesis
    by simp
qed

lemma py_digits_plain:
  "list_all is_digit ds \<Longrightarrow> py_digits acc ds = Some (foldl (\<lambda>a c. a * 10 + digit_val c) acc ds)"
  by (induction acc ds rule: py_digits.induct) (auto simp: digit_not_special)

text \<open>\<open>int()\<close> on a string of digits: its decimal value, unless the interpreter's limit
  refuses its length.\<close>

lemma py_int_digits:
  assumes "ds \<noteq> []" and "list_all is_digit ds"
  shows "py_int lib ds = (if too_long (int_max_str_digits lib) ds then None
                          else Some (int (decimal ds)))"
proof -
  obtain c cs where ds: "ds = c # cs"
    using assms(1) by (cases ds) auto
  with assms(2) have c: "is_digit c" and cs: "list_all is_digit cs"
    by simp_all
  have a: "map to_ascii ds = ds"
    using assms(2) by (auto simp: list_all_iff digit_not_special to_ascii_def intro: map_idI)
  have n: "py_nat (c # cs) = Some (decimal (c # cs))"
    using c by (simp add: py_nat_def py_digits_plain [OF cs] decimal_def)
  have "ascii_int limit ds = (if too_long limit ds then None else Some (int (decimal ds)))"
    for limit
    unfolding ascii_int_def trim_digits [OF assms(2)]
    using c n by (simp add: ds digit_not_special)
  with a show ?thesis
    by (simp add: py_int_def)
qed

lemma short_literal:
  assumes "length ds \<le> 640"
  shows "\<not> too_long limit ds"
proof -
  have "length (filter is_digit ds) \<le> 640"
    by (rule le_trans [OF length_filter_le assms])
  then show ?thesis
    by (simp add: too_long_def Let_def)
qed

lemma py_int_digit:
  "is_digit c \<Longrightarrow> py_int lib [c] = Some (int (digit_val c))"
  using py_int_digits [of "[c]" lib] short_literal [of "[c]"]
  by (simp add: decimal_def)

lemma decimal_zeros: "decimal (c # replicate n CHR ''0'') = digit_val c * 10 ^ n"
proof -
  have "foldl (\<lambda>a c. a * 10 + digit_val c) acc (replicate n CHR ''0'') = acc * 10 ^ n" for acc
    by (induction n arbitrary: acc) (simp_all add: digit_val_def)
  then show ?thesis
    by (simp add: decimal_def)
qed

subsection \<open>The challenge token\<close>

lemma five_parts:
  "split_on CHR '':'' token = [a, b, c, d, e] \<longleftrightarrow>
     token = a @ '':'' @ b @ '':'' @ c @ '':'' @ d @ '':'' @ e
     \<and> CHR '':'' \<notin> set a \<union> set b \<union> set c \<union> set d \<union> set e"
  by (auto simp: split_on_iff)

lemma verify_token_parts:
  "verify_token lib secret token client_ip now \<longleftrightarrow>
     (\<exists>nonce ts sig pow_nonce t.
        split_on CHR '':'' token = [client_ip, nonce, ts, sig, pow_nonce]
        \<and> py_int lib ts = Some t
        \<and> \<bar>t\<bar> < 2 ^ 1024 - 2 ^ 970
        \<and> now - real_of_int t \<le> 3600
        \<and> sig = hmac_sha256_hex lib secret (client_ip @ '':'' @ nonce @ '':'' @ ts)
        \<and> prefix ''00'' (sha256_hex lib
             (client_ip @ '':'' @ nonce @ '':'' @ ts @ '':'' @ sig @ '':'' @ pow_nonce)))"
  by (auto simp: verify_token_def float_of_int_def CHALLENGE_TTL_def Let_def
        split: list.splits option.splits if_splits)

text \<open>
  Claim C2, as amended. \<open>_verify_token\<close> accepts a token for a client at a time exactly when the token
  is \<open>ip:nonce:ts:sig:pow_nonce\<close> with five colon-free parts, \<open>ip\<close> is the client's
  address, \<open>ts\<close> is an integer literal for \<open>int()\<close> whose value converts to a float (its
  magnitude is below \<open>2 ** 1024 - 2 ** 970\<close>) with \<open>now - ts \<le> 3600\<close>, \<open>sig\<close> is the
  HMAC-SHA-256 of \<open>ip:nonce:ts\<close> under the secret, and the SHA-256 digest of the whole
  token starts with \<open>00\<close>. A token that meets the other conditions with a time stamp
  beyond the range of a float is refused. \<open>maybe_challenge\<close> lets a request pass exactly
  when its challenge cookie is accepted; with any other cookie value it answers as it
  does without a cookie, with the 503 challenge page.
\<close>

theorem C2_verify_token:
  "(verify_token lib secret token client_ip now \<longleftrightarrow>
      (\<exists>nonce ts sig pow_nonce t.
         token = client_ip @ '':'' @ nonce @ '':'' @ ts @ '':'' @ sig @ '':'' @ pow_nonce
         \<and> CHR '':'' \<notin> set client_ip \<union> set nonce \<union> set ts \<union> set sig \<union> set pow_nonce
         \<and> py_int lib ts = Some t
         \<and> \<bar>t\<bar> < 2 ^ 1024 - 2 ^ 970
         \<and> now - real_of_int t \<le> 3600
         \<and> sig = hmac_sha256_hex lib secret (client_ip @ '':'' @ nonce @ '':'' @ ts)
         \<and> prefix ''00'' (sha256_hex lib token)))
   \<and> maybe_challenge lib secret req client_ip now nonce0 =
       (if \<exists>cookie. map_of (req_cookies req) CHALLENGE_COOKIE = Some cookie
                    \<and> verify_token lib secret cookie client_ip now
        then None
        else Some \<lparr>status_code = 503,
                   body = ChallengePage (generate_challenge lib secret client_ip nonce0 now)\<rparr>)
   \<and> maybe_challenge lib secret (req\<lparr>req_cookies := []\<rparr>) client_ip now nonce0 =
        Some \<lparr>status_code = 503,
              body = ChallengePage (generate_challenge lib secret client_ip nonce0 now)\<rparr>"
proof -
  have v: "verify_token lib secret token client_ip now \<longleftrightarrow>
      (\<exists>nonce ts sig pow_nonce t.
         token = client_ip @ '':'' @ nonce @ '':'' @ ts @ '':'' @ sig @ '':'' @ pow_nonce
         \<and> CHR '':'' \<notin> set client_ip \<union> set nonce \<union> set ts \<union> set sig \<union> set pow_nonce
         \<and> py_int lib ts = Some t
         \<and> \<bar>t\<bar> < 2 ^ 1024 - 2 ^ 970
         \<and> now - real_of_int t \<le> 3600
         \<and> sig = hmac_sha256_hex lib secret (client_ip @ '':'' @ nonce @ '':'' @ ts)
         \<and> prefix ''00'' (sha256_hex lib token))"
    unfolding verify_token_parts five_parts by metis
  have e: "\<not> verify_token lib secret [] client_ip now"
    by (simp add: verify_token_def)
  have m: "maybe_challenge lib secret req client_ip now nonce0 =
       (if \<exists>cookie. map_of (req_cookies req) CHALLENGE_COOKIE = Some cookie
                    \<and> verify_token lib secret cookie client_ip now
        then None
        else Some \<lparr>status_code = 503,
                   body = ChallengePage (generate_challenge lib secret client_ip nonce0 now)\<rparr>)"
    using e by (auto simp: maybe_challenge_def Let_def split: option.splits)
  have n: "maybe_challenge lib secret (req\<lparr>req_cookies := []\<rparr>) client_ip now nonce0 =
        Some \<lparr>status_code = 503,
              body = ChallengePage (generate_challenge lib secret client_ip nonce0 now)\<rparr>"
    by (simp add: maybe_challenge_def)
  from v m n show ?thesis by blast
qed

lemma example_py_int: "py_int example_library ''1000'' = Some 1000"
  by code_simp

lemma example_digests:
  "sha256_hex example_library = byte_sum_hex"
  "hmac_sha256_hex example_library key msg = byte_sum_hex (key @ msg)"
  by (simp_all add: example_library_def)

lemma nbsp_token_parts:
  "split_on CHR '':'' nbsp_token = [''10.0.0.1'', ''ab'', CHR 0xA0 # ''1000'', ''7f'', ''1899'']"
  by code_simp

lemma nbsp_int: "py_int example_library (CHR 0xA0 # ''1000'') = Some 1000"
  by code_simp

text \<open>With the stand-in digests and the secret \<open>k\<close>: a token whose signature and proof of
  work check is accepted 1000 seconds after its issue; it is refused once it is older
  than an hour, for another client, and with another proof-of-work nonce. A token
  whose time stamp \<open>int()\<close> reads past a no-break space is accepted as well.\<close>

theorem C2_verify_token_witness:
  "verify_token example_library ''k'' ''10.0.0.1:ab:1000:df:199999'' ''10.0.0.1'' 2000
   \<and> \<not> verify_token example_library ''k'' ''10.0.0.1:ab:1000:df:199999'' ''10.0.0.1'' 4601
   \<and> \<not> verify_token example_library ''k'' ''10.0.0.1:ab:1000:df:199999'' ''10.0.0.2'' 2000
   \<and> \<not> verify_token example_library ''k'' ''10.0.0.1:ab:1000:df:0'' ''10.0.0.1'' 2000
   \<and> verify_token example_library ''k'' nbsp_token ''10.0.0.1'' 2000"
proof -
  have n: "verify_token example_library ''k'' nbsp_token ''10.0.0.1'' 2000"
    by (simp add: verify_token_def nbsp_token_parts nbsp_int float_of_int_def CHALLENGE_TTL_def
          example_digests byte_sum_hex_def hex_digit_def)
  have "\<exists>nonce ts sig pow_nonce t.
         ''10.0.0.1:ab:1000:df:199999''
           = ''10.0.0.1'' @ '':'' @ nonce @ '':'' @ ts @ '':'' @ sig @ '':'' @ pow_nonce
         \<and> CHR '':'' \<notin> set ''10.0.0.1'' \<union> set nonce \<union> set ts \<union> set sig \<union> set pow_nonce
         \<and> py_int example_library ts = Some t
         \<and> \<bar>t\<bar> < 2 ^ 1024 - 2 ^ 970
         \<and> (2000::real) - real_of_int t \<le> 3600
         \<and> sig = hmac_sha256_hex example_library ''k'' (''10.0.0.1'' @ '':'' @ nonce @ '':'' @ ts)
         \<and> prefix ''00'' (sha256_hex example_library ''10.0.0.1:ab:1000:df:199999'')"
    apply (rule exI [of _ "''ab''"])
    apply (rule exI [of _ "''1000''"])
    apply (rule exI [of _ "''df''"])
    apply (rule exI [of _ "''199999''"])
    apply (rule exI [of _ "1000"])
    apply (simp add: example_py_int example_digests byte_sum_hex_def hex_digit_def)
    done
  then have a: "verify_token example_library ''k'' ''10.0.0.1:ab:1000:df:199999'' ''10.0.0.1'' 2000"
    using C2_verify_token [of example_library "''k''" "''10.0.0.1:ab:1000:df:199999''"
        "''10.0.0.1''" 2000]
    by blast
  have b: "\<not> verify_token example_library ''k'' ''10.0.0.1:ab:1000:df:199999'' ''10.0.0.1'' 4601"
    by (simp add: verify_token_def example_py_int float_of_int_def CHALLENGE_TTL_def)
  have c: "\<not> verify_token example_library ''k'' ''10.0.0.1:ab:1000:df:199999'' ''10.0.0.2'' 2000"
    by (simp add: verify_token_def)
  have d: "\<not> verify_token example_library ''k'' ''10.0.0.1:ab:1000:df:0'' ''10.0.0.1'' 2000"
    by (simp add: verify_token_def example_py_int float_of_int_def CHALLENGE_TTL_def
          example_digests byte_sum_hex_def hex_digit_def)
  from a b c d n show ?thesis by blast
qed

text \<open>The token with the time stamp \<open>10 ** 309\<close> has five colon-free parts, the client's
  address, an integer literal as time stamp that is not older than an hour, the
  signature of its first three parts, and a digest that starts with \<open>00\<close>; it is refused,
  because the time stamp does not convert to a float.\<close>

lemma huge_token_shape:
  "huge_token = ''10.0.0.1'' @ '':'' @ ''39'' @ '':'' @ huge_ts @ '':'' @ ''e8'' @ '':'' @ ''99''"
  "CHR '':'' \<notin> set ''10.0.0.1'' \<union> set ''39'' \<union> set huge_ts \<union> set ''e8'' \<union> set ''99''"
  by (simp_all add: huge_token_def huge_ts_def)

lemma huge_token_parts:
  "split_on CHR '':'' huge_token = [''10.0.0.1'', ''39'', huge_ts, ''e8'', ''99'']"
  unfolding five_parts using huge_token_shape by blast

lemma huge_ts_digits: "list_all is_digit huge_ts" "length huge_ts \<le> 640" "huge_ts \<noteq> []"
  by (simp_all add: huge_ts_def is_digit_def list_all_iff)

lemma huge_ts_int: "py_int example_library huge_ts = Some (10 ^ 309)"
proof -
  have "int (decimal huge_ts) = 10 ^ 309"
    unfolding huge_ts_def decimal_zeros by (simp add: digit_val_def)
  then show ?thesis
    using py_int_digits [OF huge_ts_digits(3) huge_ts_digits(1), of example_library]
      short_literal [OF huge_ts_digits(2)]
    by simp
qed

theorem C2_huge_ts_counterexample:
  "\<not> verify_token example_library ''k'' huge_token ''10.0.0.1'' 2000
   \<and> huge_token = ''10.0.0.1'' @ '':'' @ ''39'' @ '':'' @ huge_ts @ '':'' @ ''e8'' @ '':'' @ ''99''
   \<and> CHR '':'' \<notin> set ''10.0.0.1'' \<union> set ''39'' \<union> set huge_ts \<union> set ''e8'' \<union> set ''99''
   \<and> py_int example_library huge_ts = Some (10 ^ 309)
   \<and> (2000::real) - real_of_int (10 ^ 309) \<le> 3600
   \<and> ''e8'' = hmac_sha256_hex example_library ''k'' (''10.0.0.1'' @ '':'' @ ''39'' @ '':'' @ huge_ts)
   \<and> prefix ''00'' (sha256_hex example_library huge_token)"
proof -
  have big: "\<not> \<bar>10 ^ 309 :: int\<bar> < 2 ^ 1024 - 2 ^ 970"
    by simp
  have a: "\<not> verify_token example_library ''k'' huge_token ''10.0.0.1'' 2000"
    using big by (simp add: verify_token_def huge_token_parts huge_ts_int float_of_int_def)
  have d: "(2000::real) - real_of_int (10 ^ 309) \<le> 3600"
    by simp
  have e: "''e8'' = hmac_sha256_hex example_library ''k''
                      (''10.0.0.1'' @ '':'' @ ''39'' @ '':'' @ huge_ts)"
    by (simp add: example_digests byte_sum_hex_def hex_digit_def huge_ts_def sum_list_replicate)
  have f: "prefix ''00'' (sha256_hex example_library huge_token)"
    by (simp add: example_digests byte_sum_hex_def hex_digit_def huge_token_def huge_ts_def
          sum_list_replicate)
  from a huge_token_shape huge_ts_int d e f show ?thesis by blast
qed

subsection \<open>The composite identifier\<close>

text \<open>
  Claim C4, as amended. The composite identifier is the client address, a colon, and the
  first 16 characters of the SHA-256 hex digest of the TLS hash, the header-order hash,
  the User-Agent and the accept-language (an absent field as the empty string) joined by
  \<open>|\<close>. The accept-encoding is not hashed: two fingerprints that differ in it only have the
  same composite identifier.
\<close>

theorem C4_composite_id:
  "composite_id lib fp =
     fp_client_ip fp @ '':'' @
       take 16 (sha256_hex lib
         (or_empty (fp_ja3_hash fp) @ ''|'' @ or_empty (fp_header_order_hash fp) @ ''|'' @
          or_empty (fp_user_agent fp) @ ''|'' @ or_empty (fp_accept_language fp)))
   \<and> composite_id lib (fp\<lparr>fp_accept_encoding := e\<rparr>) = composite_id lib fp"
  by (simp add: composite_id_def)

text \<open>The example fingerprint with \<open>gzip\<close> and with \<open>br\<close>: one identifier.\<close>

theorem C4_composite_id_counterexample:
  "fp_accept_encoding example_fingerprint
     \<noteq> fp_accept_encoding (example_fingerprint\<lparr>fp_accept_encoding := Some ''br''\<rparr>)
   \<and> composite_id example_library example_fingerprint
     = composite_id example_library (example_fingerprint\<lparr>fp_accept_encoding := Some ''br''\<rparr>)"
  by (simp add: composite_id_def example_fingerprint_def example_library_def or_empty_def
        byte_sum_hex_def hex_digit_def)

subsection \<open>Rate strings\<close>

lemma split_on_first: "\<exists>ps. split_on c s = takeWhile (\<lambda>x. x \<noteq> c) s # ps"
  by (induction s) (auto split: list.splits)

lemma parse_rate_string_error:
  "parse_rate_string lib s = Inl e \<longleftrightarrow>
     e = ValueError \<and> py_int lib (takeWhile (\<lambda>x. x \<noteq> CHR ''/'') s) = None"
proof -
  obtain ps where "split_on CHR ''/'' s = takeWhile (\<lambda>x. x \<noteq> CHR ''/'') s # ps"
    using split_on_first by blast
  then show ?thesis
    by (auto simp: parse_rate_string_def Let_def split: option.splits)
qed

lemma parse_rate_string_no_slash:
  assumes "CHR ''/'' \<notin> set s" and "py_int lib s = Some n"
  shows "parse_rate_string lib s = Inr (n, 60)"
  using assms by (simp add: parse_rate_string_def split_on_plain unit_map_def)

lemma parse_rate_string_unit:
  assumes "CHR ''/'' \<notin> set ds" and "CHR ''/'' \<notin> set u"
  shows "parse_rate_string lib (ds @ ''/'' @ u)
           = (case py_int lib ds of
                None \<Rightarrow> Inl ValueError
              | Some n \<Rightarrow> Inr (n, case map_of unit_map (lower u) of Some w \<Rightarrow> w | None \<Rightarrow> 60))"
  using assms
  by (simp add: parse_rate_string_def split_on_append split_on_plain Let_def
        split: option.splits)

lemma unit_names_small:
  "list_all (\<lambda>u. (case map_of unit_map (lower u) of Some w \<Rightarrow> w | None \<Rightarrow> 60) = unit_seconds u)
     [''second'', ''minute'', ''hour'', ''day'']"
  by code_simp

lemma lower_units:
  "u \<in> set [''second'', ''minute'', ''hour'', ''day''] \<Longrightarrow>
     (case map_of unit_map (lower u) of Some w \<Rightarrow> w | None \<Rightarrow> 60) = unit_seconds u"
  using unit_names_small unfolding list_all_iff by blast

lemma rate_grammar_parts:
  assumes "rate_grammar s"
  shows "\<exists>ds u. s = ds @ ''/'' @ u \<and> ds \<noteq> [] \<and> list_all is_digit ds
           \<and> u \<in> set [''second'', ''minute'', ''hour'', ''day'']
           \<and> CHR ''/'' \<notin> set ds \<and> CHR ''/'' \<notin> set u"
proof -
  from assms obtain ds u where sp: "split_on CHR ''/'' s = [ds, u]"
    and d: "ds \<noteq> []" "list_all is_digit ds"
    and u: "u \<in> set [''second'', ''minute'', ''hour'', ''day'']"
    by (auto simp: rate_grammar_def split: list.splits)
  from sp have "s = ds @ ''/'' @ u" and "CHR ''/'' \<notin> set ds" and "CHR ''/'' \<notin> set u"
    by (auto simp: split_on_iff)
  with d u show ?thesis by blast
qed

text \<open>
  Claim C9, as amended. \<open>parse_rate_string\<close> reads a string of the grammar
  \<open>^(\d+)/(second|minute|hour|day)$\<close> with the leading digits as the count and 1, 60, 3600
  or 86400 seconds as the window, unless the interpreter's limit on the digits of an
  integer literal refuses the count, which is then the \<open>ValueError\<close> of \<open>int()\<close>. It
  accepts other strings too: it raises (a \<open>ValueError\<close>) only when \<open>int()\<close> refuses the part
  before the first slash; a string without a slash and a string with an unknown unit
  are read with a window of 60 seconds.
\<close>

theorem C9_parse_rate_string:
  "(rate_grammar s \<longrightarrow>
      (\<exists>ds u. s = ds @ ''/'' @ u
         \<and> parse_rate_string lib s
             = (if too_long (int_max_str_digits lib) ds then Inl ValueError
                else Inr (int (decimal ds), unit_seconds u))))
   \<and> (parse_rate_string lib s = Inl e \<longleftrightarrow>
        e = ValueError \<and> py_int lib (takeWhile (\<lambda>x. x \<noteq> CHR ''/'') s) = None)
   \<and> (CHR ''/'' \<notin> set s \<and> py_int lib s = Some n \<longrightarrow> parse_rate_string lib s = Inr (n, 60))
   \<and> (CHR ''/'' \<notin> set ds' \<and> CHR ''/'' \<notin> set u' \<and> py_int lib ds' = Some n
        \<and> lower u' \<notin> set [''second'', ''minute'', ''hour'', ''day'']
        \<longrightarrow> parse_rate_string lib (ds' @ ''/'' @ u') = Inr (n, 60))"
proof -
  have g: "rate_grammar s \<longrightarrow>
      (\<exists>ds u. s = ds @ ''/'' @ u
         \<and> parse_rate_string lib s
             = (if too_long (int_max_str_digits lib) ds then Inl ValueError
                else Inr (int (decimal ds), unit_seconds u)))"
  proof
    assume "rate_grammar s"
    from rate_grammar_parts [OF this] obtain ds u where s: "s = ds @ ''/'' @ u"
      and d: "ds \<noteq> []" "list_all is_digit ds"
      and u: "u \<in> set [''second'', ''minute'', ''hour'', ''day'']"
      and n: "CHR ''/'' \<notin> set ds" "CHR ''/'' \<notin> set u"
      by blast
    have "parse_rate_string lib s
            = (if too_long (int_max_str_digits lib) ds then Inl ValueError
               else Inr (int (decimal ds), unit_seconds u))"
      unfolding s parse_rate_string_unit [OF n] py_int_digits [OF d] lower_units [OF u]
      by simp
    with s show "\<exists>ds u. s = ds @ ''/'' @ u
         \<and> parse_rate_string lib s
             = (if too_long (int_max_str_digits lib) ds then Inl ValueError
                else Inr (int (decimal ds), unit_seconds u))"
      by blast
  qed
  have m: "map_of unit_map (lower u') = None"
    if "lower u' \<notin> set [''second'', ''minute'', ''hour'', ''day'']"
    using that by (simp add: unit_map_def)
  have k: "CHR ''/'' \<notin> set ds' \<and> CHR ''/'' \<notin> set u' \<and> py_int lib ds' = Some n
        \<and> lower u' \<notin> set [''second'', ''minute'', ''hour'', ''day'']
        \<longrightarrow> parse_rate_string lib (ds' @ ''/'' @ u') = Inr (n, 60)"
    using parse_rate_string_unit [of ds' u' lib] m by auto
  from g parse_rate_string_error [of lib s e] parse_rate_string_no_slash [of s lib n] k
  show ?thesis by blast
qed

lemma example_py_int_5: "py_int example_library ''5'' = Some 5"
  by code_simp

text \<open>\<open>5/minute\<close> is in the grammar; \<open>5\<close> is not, and is read as five per minute.\<close>

theorem C9_parse_rate_string_witness:
  "rate_grammar ''5/minute'' \<and> parse_rate_string example_library ''5/minute'' = Inr (5, 60)
   \<and> CHR ''/'' \<notin> set ''5'' \<and> py_int example_library ''5'' = Some 5
   \<and> parse_rate_string example_library ''5'' = Inr (5, 60)"
proof -
  have a: "rate_grammar ''5/minute''"
    by code_simp
  have b: "parse_rate_string example_library ''5/minute'' = Inr (5, 60)"
    by code_simp
  have c: "CHR ''/'' \<notin> set ''5''"
    by simp
  from C9_parse_rate_string [where s = "''5''" and lib = example_library and n = 5]
    c example_py_int_5
  have d: "parse_rate_string example_library ''5'' = Inr (5, 60)"
    by blast
  from a b c d example_py_int_5 show ?thesis by blast
qed

text \<open>Two strings outside the grammar, one with an unknown unit and one without a
  slash: both are accepted, as five per 60 seconds. So is a string with a no-break space
  before the count, as five per hour.\<close>

theorem C9_rate_grammar_counterexample:
  "\<not> rate_grammar ''5/fortnight''
   \<and> parse_rate_string example_library ''5/fortnight'' = Inr (5, 60)
   \<and> \<not> rate_grammar ''5'' \<and> parse_rate_string example_library ''5'' = Inr (5, 60)
   \<and> \<not> rate_grammar (CHR 0xA0 # ''5/hour'')
   \<and> parse_rate_string example_library (CHR 0xA0 # ''5/hour'') = Inr (5, 3600)"
  by code_simp

subsection \<open>Rule limits in the admission pipeline\<close>

lemma parse_5_minute: "parse_rate_string lib ''5/minute'' = Inr (5, 60)"
proof -
  have "py_int lib ''5'' = Some 5"
    using py_int_digit [of "CHR ''5''" lib] by (simp add: is_digit_def digit_val_def)
  moreover have "(case map_of unit_map (lower ''minute'') of Some w \<Rightarrow> w | None \<Rightarrow> 60) = 60"
    using lower_units [of "''minute''"] by (simp add: unit_seconds_def)
  ultimately show ?thesis
    using parse_rate_string_unit [of "''5''" "''minute''" lib] by simp
qed

lemma resolve_login_ladder:
  "resolve_escalation login_ladder usage =
     (if 95 \<le> usage then ''block'' else if 80 \<le> usage then ''js_challenge'' else ''rate_limit'')"
  by (simp add: resolve_escalation_def login_ladder_def)

lemma one_hour: "duration_to_seconds lib ''1h'' = Some 3600"
proof -
  have "lower (strip ''1h'') = ''1h''"
    by code_simp
  moreover have "py_int lib ''1'' = Some 1"
    using py_int_digit [of "CHR ''1''" lib] by (simp add: is_digit_def digit_val_def)
  ultimately show ?thesis
    by (simp add: duration_to_seconds_def suffix_to_prefix)
qed

lemma parse_duration_login_ladder: "parse_duration lib login_ladder = Inr (Some 3600)"
  by (simp add: parse_duration_def login_ladder_def truthy_def or_empty_def one_hour)

lemma rule_exceeded_login_ladder:
  assumes "rule_escalation rule = login_ladder" and "5 < count"
  shows "rule_exceeded lib cfg (Some r) req ip rule count 5 now nonce =
           Inr (\<lparr>status_code = 403, body = Text ''Forbidden''\<rparr>,
                Some (set_ex (purge r now (''block:'' @ ip)) (''block:'' @ ip)
                        (''Rule escalation: '' @ rule_name rule) 3600 now))"
proof -
  have "95 \<le> real_of_int count / 5 * 100"
    using assms(2) by simp
  then show ?thesis
    by (simp add: rule_exceeded_def assms(1) resolve_login_ladder parse_duration_login_ladder
          block_def)
qed

lemma reserved_404:
  "reserved_path (req_path req) \<Longrightarrow>
     reverse_proxy lib cfg rules client req now uuid nonce
       = Inr (Respond \<lparr>status_code = 404, body = Empty\<rparr>, client)"
  by (simp add: reverse_proxy_def)

text \<open>
  Claim C3, as amended. A request to \<open>/api/login\<close>, as to any path under \<open>/api/\<close>, \<open>/ws/\<close> or
  \<open>/openapi.json\<close>, is answered 404 before the block list, the rules and the store are
  looked at. For a request on another path, from a client that is not blocked, whose
  first matching rule has the per-IP limit \<open>5/minute\<close> and the ladder 80 \<open>js_challenge\<close>, 95
  \<open>block\<close> for \<open>1h\<close>: the handler runs the rule's sliding-window check with limit 5 and
  window 60; while the count is at most 5 it goes on to the next rule with the store the
  check has left, and once the count is above 5 it sets the key \<open>block:<ip>\<close> to expire
  3600 seconds later and answers 403.
\<close>

theorem C3_rule_escalation:
  assumes "\<not> reserved_path (req_path req)"
    and "\<not> is_blocked (Some r) (get_client_ip req) now"
    and "match_request rules (req_path req) (req_method req) = rule # rest"
    and "rule_limits rule = Some \<lparr>per_ip = Some ''5/minute'', per_subnet = ps\<rparr>"
    and "rule_escalation rule = login_ladder"
    and "check_rule_limit (Some r) (get_client_ip req) (rule_name rule) 5 60 now (uuid 0)
           = ((allowed, count), client')"
  shows "(reserved_path (req_path req0) \<longrightarrow>
            reverse_proxy lib cfg rules0 client0 req0 now0 uuid0 nonce0
              = Inr (Respond \<lparr>status_code = 404, body = Empty\<rparr>, client0))
       \<and> (allowed \<longleftrightarrow> count \<le> 5)
       \<and> (allowed \<longrightarrow>
            rule_stage lib cfg req (get_client_ip req) now uuid nonce (Some r) (rule # rest) 0
              = rule_stage lib cfg req (get_client_ip req) now uuid nonce client' rest 1)
       \<and> (\<not> allowed \<longrightarrow>
            (\<exists>r'. reverse_proxy lib cfg rules (Some r) req now uuid nonce
                     = Inr (Respond \<lparr>status_code = 403, body = Text ''Forbidden''\<rparr>, Some r')
                 \<and> strings r' (''block:'' @ get_client_ip req)
                     = Some (''Rule escalation: '' @ rule_name rule)
                 \<and> expires r' (''block:'' @ get_client_ip req) = Some (now + 3600)))"
proof -
  let ?ip = "get_client_ip req"
  from assms(6) obtain r1 where c: "client' = Some r1" and a: "allowed \<longleftrightarrow> count \<le> 5"
    by (auto simp: check_rule_limit_def Let_def split: prod.splits)
  have t: "truthy (case rule_limits rule of None \<Rightarrow> None | Some l \<Rightarrow> per_ip l)"
    and o: "or_empty (case rule_limits rule of None \<Rightarrow> None | Some l \<Rightarrow> per_ip l) = ''5/minute''"
    by (simp_all add: assms(4) truthy_def or_empty_def)
  have go: "allowed \<longrightarrow>
            rule_stage lib cfg req ?ip now uuid nonce (Some r) (rule # rest) 0
              = rule_stage lib cfg req ?ip now uuid nonce client' rest 1"
    by (simp add: t o parse_5_minute assms(6))
  have stop: "\<exists>r'. reverse_proxy lib cfg rules (Some r) req now uuid nonce
                     = Inr (Respond \<lparr>status_code = 403, body = Text ''Forbidden''\<rparr>, Some r')
                 \<and> strings r' (''block:'' @ ?ip) = Some (''Rule escalation: '' @ rule_name rule)
                 \<and> expires r' (''block:'' @ ?ip) = Some (now + 3600)"
    if na: "\<not> allowed"
  proof -
    from na a have gt: "5 < count" by simp
    let ?r' = "set_ex (purge r1 now (''block:'' @ ?ip)) (''block:'' @ ?ip)
                 (''Rule escalation: '' @ rule_name rule) 3600 now"
    have rs: "rule_stage lib cfg req ?ip now uuid nonce (Some r) (rule # rest) 0
            = Inr (Some \<lparr>status_code = 403, body = Text ''Forbidden''\<rparr>, Some ?r', Suc 0)"
      using na
      by (simp add: t o parse_5_minute assms(6) c rule_exceeded_login_ladder [OF assms(5) gt])
    have "reverse_proxy lib cfg rules (Some r) req now uuid nonce
                 = Inr (Respond \<lparr>status_code = 403, body = Text ''Forbidden''\<rparr>, Some ?r')"
      using assms(1,2) by (simp add: reverse_proxy_def Let_def assms(3) rs del: rule_stage.simps)
    moreover have "strings ?r' (''block:'' @ ?ip) = Some (''Rule escalation: '' @ rule_name rule)"
      and "expires ?r' (''block:'' @ ?ip) = Some (now + 3600)"
      by (simp_all add: set_ex_def)
    ultimately show ?thesis by blast
  qed
  from reserved_404 [of req0 lib cfg rules0 client0 now0 uuid0 nonce0] a go stop
  show ?thesis by blast
qed


text \<open>The sixth \<open>POST /login\<close> of a client within five seconds, under the rule moved to
  \<open>/login\<close>: the client is blocked for an hour and answered 403.\<close>

theorem C3_rule_escalation_witness:
  "\<exists>r'. reverse_proxy example_library default_settings
            [login_protection\<lparr>rule_match_path := Some ''/login''\<rparr>]
            (Some (five_in_window ''rl:rule:Login Protection:203.0.113.9''))
            (login_request ''/login'') 1000 example_uuid ''9f''
          = Inr (Respond \<lparr>status_code = 403, body = Text ''Forbidden''\<rparr>, Some r')
        \<and> strings r' ''block:203.0.113.9'' = Some ''Rule escalation: Login Protection''
        \<and> expires r' ''block:203.0.113.9'' = Some 4600"
proof -
  let ?rule = "login_protection\<lparr>rule_match_path := Some ''/login''\<rparr>"
  let ?r = "five_in_window ''rl:rule:Login Protection:203.0.113.9''"
  let ?req = "login_request ''/login''"
  let ?check = "check_rule_limit (Some ?r) (get_client_ip ?req) (rule_name ?rule) 5 60 1000
                  (example_uuid 0)"
  have ip: "get_client_ip ?req = ''203.0.113.9''"
    by (simp add: get_client_ip_def header_def login_request_def truthy_def)
  have h1: "\<not> reserved_path (req_path ?req)"
    by (simp add: reserved_path_def login_request_def)
  have h2: "\<not> is_blocked (Some ?r) (get_client_ip ?req) 1000"
    by (simp add: ip is_blocked_def five_in_window_def empty_redis_def purge_def expired_def
          sismember_def exists_key_def ALLOWLIST_KEY_def BLOCKLIST_KEY_def)
  have h3: "match_request [?rule] (req_path ?req) (req_method ?req) = ?rule # []"
    by (simp add: match_request_def rule_matches_def login_protection_def login_request_def
          truthy_def or_empty_def path_matches_def suffix_to_prefix upper_def upper_char_def)
  have h4: "rule_limits ?rule = Some \<lparr>per_ip = Some ''5/minute'', per_subnet = Some ''50/minute''\<rparr>"
    by (simp add: login_protection_def)
  have h5: "rule_escalation ?rule = login_ladder"
    by (simp add: login_protection_def)
  have "fst ?check = (False, 6)"
    by code_simp
  then have h6: "?check = ((False, 6), snd ?check)"
    by (simp add: prod_eq_iff)
  note w = C3_rule_escalation [where uuid = example_uuid and lib = example_library
      and cfg = default_settings and nonce = "''9f''", OF h1 h2 h3 h4 h5 h6]
  then show ?thesis
    by (simp add: ip login_protection_def)
qed

text \<open>A sixth \<open>POST /api/login\<close> within five seconds, with the rule of the rule file
  loaded: the rule matches the request, but the handler answers 404 and the store is as
  it was: no member is added to the rule's window and no block key is set.\<close>

theorem C3_login_counterexample:
  "match_request [login_protection] ''/api/login'' ''POST'' = [login_protection]
   \<and> reverse_proxy example_library default_settings [login_protection]
        (Some (five_in_window ''rl:rule:Login Protection:203.0.113.9''))
        (login_request ''/api/login'') 1000 example_uuid ''9f''
      = Inr (Respond \<lparr>status_code = 404, body = Empty\<rparr>,
             Some (five_in_window ''rl:rule:Login Protection:203.0.113.9''))"
  by (simp add: match_request_def rule_matches_def login_protection_def login_request_def
        truthy_def or_empty_def path_matches_def suffix_to_prefix upper_def upper_char_def
        reverse_proxy_def reserved_path_def)

end
